theory Spec2Isabelle
  imports Complex_Main
begin

unbundle bit_operations_syntax

section \<open>JavaScript numbers and the bn.js big integers used by the clients\<close>

text \<open>
  Public keys are compared through their base58 text, so a key is its string.
  A JavaScript number is modelled as a rational: every product and quotient below is
  taken exactly, which agrees with IEEE doubles whenever the operands are integers below
  \<open>2^53\<close> or the quotient is by a power of two.

  Three kinds of exception occur in the clients: an explicit \<^verbatim>\<open>throw new Error(msg)\<close>,
  a failed \<^verbatim>\<open>assert\<close> inside bn.js, and the runtime's TypeError on reading a
  property of \<^verbatim>\<open>undefined\<close>.
\<close>

type_synonym PublicKey = string

datatype error = Error string | AssertionError | TypeError

definition bind_result :: "error + 'a \<Rightarrow> ('a \<Rightarrow> error + 'b) \<Rightarrow> error + 'b" where
  "bind_result r f = (case r of Inl e \<Rightarrow> Inl e | Inr v \<Rightarrow> f v)"

text \<open>Truncation of a number to an integer, and the 32-bit coercions of the bit operators.\<close>

definition js_trunc :: "rat \<Rightarrow> int" where
  "js_trunc x = (if 0 \<le> x then \<lfloor>x\<rfloor> else \<lceil>x\<rceil>)"

definition js_ToInt32 :: "rat \<Rightarrow> int" where
  "js_ToInt32 x =
     (let t = js_trunc x mod 4294967296 in if 2147483648 \<le> t then t - 4294967296 else t)"

definition js_ToUint32 :: "rat \<Rightarrow> int" where
  "js_ToUint32 x = js_trunc x mod 4294967296"

text \<open>
  A BN holds a sign and little-endian 26-bit limbs (\<open>0x4000000 = 67108864\<close>).
  \<^verbatim>\<open>imuln\<close> multiplies limb by limb with a JavaScript number:
  \<^verbatim>\<open>
    var carry = 0;
    for (var i = 0; i < this.length; i++) {
      var w = (this.words[i] | 0) * num;
      var lo = (w & 0x3ffffff) + (carry & 0x3ffffff);
      carry >>= 26;
      carry += (w / 0x4000000) | 0;
      carry += lo >>> 26;
      this.words[i] = lo & 0x3ffffff;
    }
    if (carry !== 0) { this.words[i] = carry; this.length++; }
  \<close>
  \<open>imuln_step\<close> is one round of the loop: it returns the stored limb and the new carry.
\<close>

definition imuln_step :: "int \<Rightarrow> rat \<Rightarrow> int \<Rightarrow> int \<times> int" where
  "imuln_step x num carry =
    (let w = of_int (js_ToInt32 (of_int x)) * num;
         lo = (js_ToInt32 w AND 67108863) + (js_ToInt32 (of_int carry) AND 67108863);
         carry1 = js_ToInt32 (of_int carry) div 67108864;
         carry2 = carry1 + js_ToInt32 (w / 67108864);
         carry3 = carry2 + js_ToUint32 (of_int lo) div 67108864
     in (js_ToInt32 (of_int lo) AND 67108863, carry3))"

fun imuln_loop :: "int list \<Rightarrow> rat \<Rightarrow> int \<Rightarrow> int list \<times> int" where
  "imuln_loop [] num carry = ([], carry)"
| "imuln_loop (x # xs) num carry =
    (case imuln_step x num carry of (word, carry') \<Rightarrow>
       (case imuln_loop xs num carry' of (ys, c) \<Rightarrow> (word # ys, c)))"

definition imuln :: "int list \<Rightarrow> rat \<Rightarrow> int list" where
  "imuln ws num = (case imuln_loop ws num 0 of (ys, c) \<Rightarrow> if c \<noteq> 0 then ys @ [c] else ys)"

text \<open>The limbs of a magnitude (zero is the single limb 0) and the value of a limb list.\<close>

function BN_words :: "nat \<Rightarrow> int list" where
  "BN_words n =
     (if n < 67108864 then [int n] else int (n mod 67108864) # BN_words (n div 67108864))"
  by pat_completeness auto
termination
  by (relation "measure id") auto

declare BN_words.simps [simp del]

fun BN_value :: "int list \<Rightarrow> int" where
  "BN_value [] = 0"
| "BN_value (x # xs) = x + 67108864 * BN_value xs"

text \<open>
  \<^verbatim>\<open>muln(num)\<close>: a negative \<open>num\<close> is negated first, \<^verbatim>\<open>assert(num < 0x4000000)\<close>
  guards the loop, and the sign of the BN is kept. A BN is identified with its integer value.
\<close>

definition muln :: "int \<Rightarrow> rat \<Rightarrow> error + int" where
  "muln x num =
     (let isNegNum = num < 0; n = (if isNegNum then - num else num)
      in if \<not> n < 67108864 then Inl AssertionError
         else let r = sgn x * BN_value (imuln (BN_words (nat \<bar>x\<bar>)) n)
              in Inr (if isNegNum then - r else r))"

text \<open>bn.js divides by truncation towards zero; \<^verbatim>\<open>div\<close> asserts a non-zero divisor.\<close>

definition trunc_div :: "int \<Rightarrow> int \<Rightarrow> int" where
  "trunc_div a b =
     (if (a < 0) = (b < 0) then \<bar>a\<bar> div \<bar>b\<bar> else - (\<bar>a\<bar> div \<bar>b\<bar>))"

definition bn_div :: "int \<Rightarrow> int \<Rightarrow> error + int" where
  "bn_div a b = (if b = 0 then Inl AssertionError else Inr (trunc_div a b))"

text \<open>
  \<^verbatim>\<open>divn(num)\<close> is only ever called with the integer literals 1000 and 100; it asserts
  \<^verbatim>\<open>num <= 0x3ffffff\<close> and is long division by a small integer.
\<close>

definition divn :: "int \<Rightarrow> int \<Rightarrow> error + int" where
  "divn a num = (if \<not> \<bar>num\<bar> \<le> 67108863 then Inl AssertionError else Inr (trunc_div a num))"

section \<open>Data of the pool client\<close>

datatype SIDE = BID | ASK

record Pool =
  poolPublicKey :: PublicKey
  poolMint :: PublicKey
  baseTokenMint :: PublicKey
  quoteTokenMint :: PublicKey
  baseTokenVault :: PublicKey
  quoteTokenVault :: PublicKey
  poolVersion :: "int option"

text \<open>
  Constants imported from modules of the library that are not part of the sources at hand;
  they are parameters of every operation that uses them.
\<close>

record constants =
  POOLS_PROGRAM_ADDRESS :: PublicKey
  POOLS_V2_PROGRAM_ADDRESS :: PublicKey
  STAKING_PROGRAM_ADDRESS :: PublicKey
  TOKEN_PROGRAM_ID :: PublicKey
  SOL_MINT :: PublicKey
  PRECISION_NOMINATOR :: int
  DEFAULT_FARMING_TICKET_END_TIME :: int
  CURVE_PRODUCT :: int
  accountDiscriminator :: "string \<Rightarrow> string"

text \<open>
  Accounts as \<^verbatim>\<open>getProgramAccounts\<close> returns them, and the filters it is given. The
  bytes of a \<^verbatim>\<open>memcmp\<close> filter are base58 text.
\<close>

datatype filter = DataSize nat | Memcmp nat string

record ProgramAccount =
  pubkey :: PublicKey
  data :: "nat list"

record ParsedTokenAccount =
  pubkey :: PublicKey
  mint :: PublicKey

text \<open>
  What the network and the key generator answer during one client call:
  \<open>findProgramAddress seed programId\<close> is the first component of
  \<^verbatim>\<open>PublicKey.findProgramAddress([seed], programId)\<close>, \<open>generate i\<close> the \<open>i\<close>-th fresh
  account key handed out, the last two the \<^verbatim>\<open>supply\<close> and \<^verbatim>\<open>amount\<close> fields returned by
  \<^verbatim>\<open>getMintInfo\<close> and \<^verbatim>\<open>getTokenAccount\<close>.
\<close>

record connection =
  findProgramAddress :: "PublicKey \<Rightarrow> PublicKey \<Rightarrow> PublicKey"
  generate :: "nat \<Rightarrow> PublicKey"
  getMintInfo_supply :: "PublicKey \<Rightarrow> int"
  getTokenAccount_amount :: "PublicKey \<Rightarrow> int"
  getParsedTokenAccountsByOwner :: "PublicKey \<Rightarrow> ParsedTokenAccount list"
  getProgramAccounts :: "PublicKey \<Rightarrow> filter list \<Rightarrow> ProgramAccount list"

record DepositLiquidityParams =
  pool :: Pool
  maxBaseTokenAmount :: int
  wallet :: PublicKey
  slippage :: "rat option"
  userPoolTokenAccount :: "PublicKey option"

record WithdrawLiquidityParams =
  pool :: Pool
  poolTokenAmount :: int
  wallet :: PublicKey
  slippage :: "rat option"
  baseTokenReturnedMin :: "int option"
  quoteTokenReturnedMin :: "int option"
  userBaseTokenAccount :: "PublicKey option"
  userQuoteTokenAccount :: "PublicKey option"

record ReferralParams =
  referralAccount :: PublicKey
  referralPercent :: rat
  createTokenAccounts :: bool

record SwapParams =
  pool :: Pool
  referralParams :: "ReferralParams option"
  slippage :: "rat option"
  side :: SIDE
  wallet :: PublicKey
  outcomeAmount :: int
  minIncomeAmount :: int
  userBaseTokenAccount :: "PublicKey option"
  userQuoteTokenAccount :: "PublicKey option"

text \<open>
  The entries of a transaction. Each constructor records the arguments the client passes
  to the instruction builder:
  \<^item> \<open>CreateTokenAccount owner mint amount payer newAccountPubkey\<close>
  \<^item> \<open>DepositLiquidity params walletAuthority poolSigner userPoolTokenAccount creationSize programId\<close>
  \<^item> \<open>WithdrawLiquidity params userBase userQuote baseTokenReturnedMin quoteTokenReturnedMin
     poolSigner walletAuthority programId\<close>
  \<^item> \<open>Swap params minIncomeAmount poolSigner walletAuthority userBase userQuote poolVersion\<close>
  \<^item> \<open>Transfer programId source destination owner amount\<close>
  \<^item> \<open>CloseAccount programId account destination owner\<close>
  \<^item> \<open>CreateAccount size programId newAccountPubkey\<close>
  \<^item> \<open>Staking poolPublicKey farmingState stakingVault userStakingTokenAccount userKey
     tokenAmount stakingTicket programId\<close>
  \<^item> \<open>Unstaking poolPublicKey farmingState stakingSnapshots stakingVault lpTokenFreezeVault
     userStakingTokenAccount poolSigner userKey programId stakingTicket\<close>
  \<^item> \<open>WithdrawFarmed poolPublicKey farmingState farmingTokenVault farmingCalc
     userFarmingTokenAccount poolSigner userKey programId\<close>
\<close>

datatype instruction =
    CreateTokenAccount PublicKey PublicKey "int option" "PublicKey option" PublicKey
  | DepositLiquidity DepositLiquidityParams PublicKey PublicKey PublicKey int PublicKey
  | WithdrawLiquidity WithdrawLiquidityParams PublicKey PublicKey int int PublicKey PublicKey
      PublicKey
  | Swap SwapParams int PublicKey PublicKey PublicKey PublicKey int
  | Transfer PublicKey PublicKey PublicKey PublicKey int
  | CloseAccount PublicKey PublicKey PublicKey PublicKey
  | CreateAccount nat PublicKey PublicKey
  | Staking PublicKey PublicKey PublicKey PublicKey PublicKey int PublicKey PublicKey
  | Unstaking PublicKey PublicKey PublicKey PublicKey PublicKey PublicKey PublicKey PublicKey
      PublicKey PublicKey
  | WithdrawFarmed PublicKey PublicKey PublicKey PublicKey PublicKey PublicKey PublicKey
      PublicKey

type_synonym Transaction = "instruction list"

definition TOKEN_ACCOUNT_RENT_LAMPORTS :: int where
  "TOKEN_ACCOUNT_RENT_LAMPORTS = 2040000"

section \<open>PoolClient\<close>

definition getPoolAddress :: "constants \<Rightarrow> int \<Rightarrow> PublicKey" where
  "getPoolAddress K version =
     (if version = 1 then POOLS_PROGRAM_ADDRESS K else POOLS_V2_PROGRAM_ADDRESS K)"

text \<open>The destructuring default \<^verbatim>\<open>poolVersion = 1\<close>.\<close>

definition poolVersion_or_default :: "Pool \<Rightarrow> int" where
  "poolVersion_or_default p = (case poolVersion p of None \<Rightarrow> 1 | Some v \<Rightarrow> v)"

text \<open>\<^verbatim>\<open>transaction.add(...)\<close> appends to the instruction list of the transaction.\<close>

definition add :: "Transaction \<Rightarrow> Transaction \<Rightarrow> Transaction" where
  "add transaction items = transaction @ items"

text \<open>
  \<^verbatim>\<open>if (!account) { ... createTokenAccountTransaction ...; transaction.add(...) }\<close>:
  given the transaction so far and the number \<open>n\<close> of keys generated so far, returns the
  account to use, the transaction and the new number of generated keys.
\<close>

definition createIfMissing ::
  "connection \<Rightarrow> Transaction \<Rightarrow> nat \<Rightarrow> PublicKey option \<Rightarrow> PublicKey \<Rightarrow> PublicKey
     \<Rightarrow> int option \<Rightarrow> PublicKey \<times> Transaction \<times> nat" where
  "createIfMissing conn transaction n account owner mnt amt =
     (case account of
        Some a \<Rightarrow> (a, transaction, n)
      | None \<Rightarrow>
          (generate conn n,
           add transaction [CreateTokenAccount owner mnt amt None (generate conn n)],
           Suc n))"

definition depositLiquidity ::
  "constants \<Rightarrow> connection \<Rightarrow> DepositLiquidityParams \<Rightarrow> error + Transaction" where
  "depositLiquidity K conn params =
    (let pool = DepositLiquidityParams.pool params;
         slippage = (case DepositLiquidityParams.slippage params of None \<Rightarrow> 1 / 100 | Some s \<Rightarrow> s);
         wallet = DepositLiquidityParams.wallet params;
         transaction = [];
         programId = getPoolAddress K (poolVersion_or_default pool);
         poolSigner = findProgramAddress conn (poolPublicKey pool) programId
     in bind_result
          (bind_result
             (bn_div (getMintInfo_supply conn (poolMint pool) * maxBaseTokenAmount params)
                (getTokenAccount_amount conn (baseTokenVault pool)))
             (\<lambda>q. muln q (1 - slippage)))
          (\<lambda>creationSize.
             case createIfMissing conn transaction 0 (userPoolTokenAccount params) wallet
                    (poolMint pool) None of
               (userPool, transaction1, n) \<Rightarrow>
                 Inr (add transaction1
                   [DepositLiquidity params wallet poolSigner userPool creationSize programId])))"

record MaxWithdrawable =
  withdrawAmountBase :: int
  withdrawAmountQuote :: int

definition getMaxWithdrawable ::
  "connection \<Rightarrow> WithdrawLiquidityParams \<Rightarrow> error + MaxWithdrawable" where
  "getMaxWithdrawable conn params =
    (let pool = WithdrawLiquidityParams.pool params;
         supply' = getMintInfo_supply conn (poolMint pool);
         baseTokenAmount = getTokenAccount_amount conn (baseTokenVault pool);
         quoteTokenAmount = getTokenAccount_amount conn (quoteTokenVault pool)
     in bind_result (bn_div (baseTokenAmount * poolTokenAmount params) supply') (\<lambda>b.
        bind_result (bn_div (quoteTokenAmount * poolTokenAmount params) supply') (\<lambda>q.
          Inr \<lparr>withdrawAmountBase = b, withdrawAmountQuote = q\<rparr>)))"

text \<open>
  The minimum amounts of \<^verbatim>\<open>withdrawLiquidity\<close>: a BN object is always truthy, so
  \<^verbatim>\<open>!baseTokenReturnedMin\<close> only tests for an absent field.
\<close>

definition returnedMin ::
  "connection \<Rightarrow> WithdrawLiquidityParams \<Rightarrow> error + int \<times> int" where
  "returnedMin conn params =
     (case (baseTokenReturnedMin params, quoteTokenReturnedMin params) of
        (Some b, Some q) \<Rightarrow> Inr (b, q)
      | (b, q) \<Rightarrow>
          bind_result (getMaxWithdrawable conn params) (\<lambda>maxWithdraw.
            Inr (case b of None \<Rightarrow> withdrawAmountBase maxWithdraw | Some v \<Rightarrow> v,
                 case q of None \<Rightarrow> withdrawAmountQuote maxWithdraw | Some v \<Rightarrow> v)))"

definition withdrawLiquidity ::
  "constants \<Rightarrow> connection \<Rightarrow> WithdrawLiquidityParams \<Rightarrow> error + Transaction" where
  "withdrawLiquidity K conn params =
    (let pool = WithdrawLiquidityParams.pool params;
         slippage = (case WithdrawLiquidityParams.slippage params of None \<Rightarrow> 1 / 1000 | Some s \<Rightarrow> s);
         wallet = WithdrawLiquidityParams.wallet params;
         programId = getPoolAddress K (poolVersion_or_default pool);
         poolSigner = findProgramAddress conn (poolPublicKey pool) programId;
         transaction = []
     in case createIfMissing conn transaction 0
               (WithdrawLiquidityParams.userBaseTokenAccount params) wallet
               (baseTokenMint pool) None of
          (userBase, transaction1, n1) \<Rightarrow>
        case createIfMissing conn transaction1 n1
               (WithdrawLiquidityParams.userQuoteTokenAccount params) wallet
               (quoteTokenMint pool) None of
          (userQuote, transaction2, n2) \<Rightarrow>
        bind_result (returnedMin conn params) (\<lambda>(b, q).
        bind_result (muln b (1 - slippage)) (\<lambda>baseMin.
        bind_result (muln q (1 - slippage)) (\<lambda>quoteMin.
          Inr (add transaction2
            [WithdrawLiquidity params userBase userQuote baseMin quoteMin poolSigner wallet
               programId])))))"

text \<open>
  \<^verbatim>\<open>params.minIncomeAmount.muln(1000 - slippage * 1000).divn(1000)\<close>, with the
  destructuring default \<^verbatim>\<open>slippage = 0.001\<close>.
\<close>

definition swap_minIncomeAmount :: "SwapParams \<Rightarrow> error + int" where
  "swap_minIncomeAmount params =
     (let slippage = (case SwapParams.slippage params of None \<Rightarrow> 1 / 1000 | Some s \<Rightarrow> s)
      in bind_result (muln (minIncomeAmount params) (1000 - slippage * 1000))
           (\<lambda>x. divn x 1000))"

text \<open>
  \<^verbatim>\<open>minIncomeAmount.mul(PRECISION_NOMINATOR.muln(referralPercent).divn(100)).div(PRECISION_NOMINATOR)\<close>,
  where \<^verbatim>\<open>minIncomeAmount\<close> is the local, slippage-adjusted amount.
\<close>

definition refFeeAmount :: "constants \<Rightarrow> int \<Rightarrow> ReferralParams \<Rightarrow> error + int" where
  "refFeeAmount K minIncome rp =
     bind_result (muln (PRECISION_NOMINATOR K) (referralPercent rp)) (\<lambda>a.
     bind_result (divn a 100) (\<lambda>b.
     bn_div (minIncome * b) (PRECISION_NOMINATOR K)))"

text \<open>
  The body of \<^verbatim>\<open>if (referralParams) { ... }\<close>. The amount of the transfer is
  \<^verbatim>\<open>parseInt(refFeeAmount.toString(), 10)\<close>, the fee itself while it is below \<open>2^53\<close>.
\<close>

definition referralFee ::
  "constants \<Rightarrow> connection \<Rightarrow> SwapParams \<Rightarrow> Transaction \<Rightarrow> nat \<Rightarrow> int \<Rightarrow> PublicKey
     \<Rightarrow> PublicKey \<Rightarrow> ReferralParams \<Rightarrow> error + Transaction" where
  "referralFee K conn params transaction n minIncome userBase userQuote rp =
     bind_result (refFeeAmount K minIncome rp) (\<lambda>fee.
       let pool = SwapParams.pool params;
           wallet = SwapParams.wallet params;
           incomeMint = (if side params = ASK then quoteTokenMint pool else baseTokenMint pool);
           takeFeesFromAccount = (if side params = ASK then userQuote else userBase);
           walletTokens = getParsedTokenAccountsByOwner conn (referralAccount rp);
           found = map_option pubkey (find (\<lambda>wt. mint wt = incomeMint) walletTokens);
           created = (found = None \<and> createTokenAccounts rp);
           transaction1 =
             (if created
              then add transaction
                     [CreateTokenAccount (referralAccount rp) incomeMint None (Some wallet)
                        (generate conn n)]
              else transaction);
           feesDestination = (if created then Some (generate conn n) else found)
       in case feesDestination of
            None \<Rightarrow> Inl (Error ''No token account for referral wallet!'')
          | Some destination \<Rightarrow>
              Inr (add transaction1
                [Transfer (TOKEN_PROGRAM_ID K) takeFeesFromAccount destination wallet fee]))"

text \<open>\<^verbatim>\<open>if (mint.equals(SOL_MINT)) { transaction.add(createCloseAccountInstruction(...)) }\<close>\<close>

definition closeIfSol ::
  "constants \<Rightarrow> Transaction \<Rightarrow> PublicKey \<Rightarrow> PublicKey \<Rightarrow> PublicKey \<Rightarrow> Transaction" where
  "closeIfSol K transaction mnt account owner =
     (if mnt = SOL_MINT K
      then add transaction [CloseAccount (TOKEN_PROGRAM_ID K) account owner owner]
      else transaction)"

text \<open>
  \<^verbatim>\<open>swap\<close> returns the transaction handed to \<^verbatim>\<open>sendTransaction\<close>, or the
  exception thrown before anything is sent. The amount funded into a freshly created
  account is \<^verbatim>\<open>parseInt(outcomeAmount.toString(), 10) + TOKEN_ACCOUNT_RENT_LAMPORTS\<close>.
\<close>

definition swap :: "constants \<Rightarrow> connection \<Rightarrow> SwapParams \<Rightarrow> error + Transaction" where
  "swap K conn params =
    (let pool = SwapParams.pool params;
         version = poolVersion_or_default pool;
         wallet = SwapParams.wallet params;
         funded = Some (outcomeAmount params + TOKEN_ACCOUNT_RENT_LAMPORTS);
         transaction = []
     in case createIfMissing conn transaction 0 (userBaseTokenAccount params) wallet
               (baseTokenMint pool) (if side params = ASK then funded else None) of
          (userBase, transaction1, n1) \<Rightarrow>
        case createIfMissing conn transaction1 n1 (userQuoteTokenAccount params) wallet
               (quoteTokenMint pool) (if side params = BID then funded else None) of
          (userQuote, transaction2, n2) \<Rightarrow>
        let programId = getPoolAddress K version;
            poolSigner = findProgramAddress conn (poolPublicKey pool) programId
        in bind_result (swap_minIncomeAmount params) (\<lambda>minIncome.
           let transaction3 =
                 add transaction2 [Swap params minIncome poolSigner wallet userBase userQuote version]
           in bind_result
                (case referralParams params of
                   None \<Rightarrow> Inr transaction3
                 | Some rp \<Rightarrow>
                     referralFee K conn params transaction3 n2 minIncome userBase userQuote rp)
                (\<lambda>transaction4.
                   Inr (closeIfSol K
                          (closeIfSol K transaction4 (baseTokenMint pool) userBase wallet)
                          (quoteTokenMint pool) userQuote wallet))))"

section \<open>Decoding pool accounts\<close>

text \<open>
  The account layouts are defined outside the sources at hand. A layout is given by its
  size, its field offsets and its decoder. A decoded pool is a JavaScript object: a finite
  map from field names to values, so that the object spread
  \<^verbatim>\<open>{ ...account, poolPublicKey: pubkey, ... }\<close> is a map update.
\<close>

datatype field = PublicKeyField PublicKey | NumberField int | BNField int | BytesField "nat list"

type_synonym object = "string \<rightharpoonup> field"

record 'a layout =
  span :: nat
  offsetOf :: "string \<Rightarrow> nat option"
  decode :: "nat list \<Rightarrow> 'a"

text \<open>\<^verbatim>\<open>LAYOUT.offsetOf(name) || 0\<close>\<close>

definition offsetOf_or_0 :: "'a layout \<Rightarrow> string \<Rightarrow> nat" where
  "offsetOf_or_0 L name = (case offsetOf L name of None \<Rightarrow> 0 | Some off \<Rightarrow> off)"

definition poolSearchFilters :: "constants \<Rightarrow> 'a layout \<Rightarrow> PublicKey option \<Rightarrow> filter list" where
  "poolSearchFilters K L filters_mint =
     (let searchFilters = [DataSize (span L), Memcmp 0 (accountDiscriminator K ''Pool'')]
      in case filters_mint of
           None \<Rightarrow> searchFilters
         | Some m \<Rightarrow> searchFilters @ [Memcmp (offsetOf_or_0 L ''poolMint'') m])"

definition getPools ::
  "constants \<Rightarrow> object layout \<Rightarrow> connection \<Rightarrow> PublicKey option \<Rightarrow> object list" where
  "getPools K POOL_LAYOUT conn filters_mint =
     (let accounts = getProgramAccounts conn (POOLS_PROGRAM_ADDRESS K)
                       (poolSearchFilters K POOL_LAYOUT filters_mint)
      in map (\<lambda>p. (decode POOL_LAYOUT (data p))
                     (''poolPublicKey'' \<mapsto> PublicKeyField (ProgramAccount.pubkey p),
                      ''poolVersion'' \<mapsto> NumberField 1,
                      ''curveType'' \<mapsto> NumberField (CURVE_PRODUCT K)))
           accounts)"

definition getV2Pools ::
  "constants \<Rightarrow> object layout \<Rightarrow> connection \<Rightarrow> PublicKey option \<Rightarrow> object list" where
  "getV2Pools K POOL_V2_LAYOUT conn filters_mint =
     (let accounts = getProgramAccounts conn (POOLS_V2_PROGRAM_ADDRESS K)
                       (poolSearchFilters K POOL_V2_LAYOUT filters_mint)
      in map (\<lambda>p. (decode POOL_V2_LAYOUT (data p))
                     (''poolPublicKey'' \<mapsto> PublicKeyField (ProgramAccount.pubkey p),
                      ''poolVersion'' \<mapsto> NumberField 2))
           accounts)"

section \<open>StakingClient\<close>

text \<open>
  The staking pool description comes from the pools API; the decoded staking accounts are
  typed records, of which only the fields read by the client are listed. The record a
  query returns is the decoded record extended with the public key of its account.
\<close>

record PoolFarmingResponse =
  farmingState :: PublicKey
  farmingTokenVault :: PublicKey
  farmingSnapshots :: PublicKey
  tokensTotal :: int
  tokensUnlocked :: int

record StakingPoolInfo =
  swapToken :: PublicKey
  poolTokenMint :: PublicKey
  stakingVault :: PublicKey
  farming :: "PoolFarmingResponse list option"

record StakingTicketData =
  userKey :: PublicKey
  startTime :: int
  endTime :: int

record StakingTicket = StakingTicketData +
  stakingTicketPublicKey :: PublicKey

record StakingStateData =
  farmingTokenVault :: PublicKey

record StakingState = StakingStateData +
  statePublicKey :: PublicKey

record FarmingCalcData =
  farmingState :: PublicKey
  tokenAmount :: int

record FarmingCalc = FarmingCalcData +
  farmingCalcPublicKey :: PublicKey

text \<open>
  \<^verbatim>\<open>stakingPool.farming.find((item) => item.tokensTotal !== item.tokensUnlocked)\<close> and
  the lookup of the walletKey's token account for the staking pool token mint.
\<close>

definition findFarmingStateItem :: "PoolFarmingResponse list \<Rightarrow> PoolFarmingResponse option" where
  "findFarmingStateItem items = find (\<lambda>item. tokensTotal item \<noteq> tokensUnlocked item) items"

definition findTokenAccount ::
  "connection \<Rightarrow> PublicKey \<Rightarrow> StakingPoolInfo \<Rightarrow> ParsedTokenAccount option" where
  "findTokenAccount conn owner stakingPool =
     find (\<lambda>item. mint item = poolTokenMint stakingPool)
       (getParsedTokenAccountsByOwner conn owner)"

definition startStaking ::
  "constants \<Rightarrow> StakingTicketData layout \<Rightarrow> connection \<Rightarrow> StakingPoolInfo \<Rightarrow> PublicKey \<Rightarrow> int
     \<Rightarrow> error + Transaction" where
  "startStaking K STAKING_TICKET_LAYOUT conn stakingPool walletKey amountToStake =
    (let programId = STAKING_PROGRAM_ADDRESS K;
         stakingTicket = generate conn 0;
         stakingTicketInstruction = CreateAccount (span STAKING_TICKET_LAYOUT) programId stakingTicket
     in case findTokenAccount conn walletKey stakingPool of
          None \<Rightarrow> Inl (Error ''No account - cannot stake!'')
        | Some tokenAccount \<Rightarrow>
       (case farming stakingPool of
          None \<Rightarrow> Inl (Error ''Dont have any farming tickets - cannot stake!'')
        | Some items \<Rightarrow>
       (case findFarmingStateItem items of
          None \<Rightarrow> Inl (Error ''Dont have farming item - cannot stake!'')
        | Some farmingStateItem \<Rightarrow>
            Inr (add (add [] [stakingTicketInstruction])
                   [Staking (swapToken stakingPool)
                      (PoolFarmingResponse.farmingState farmingStateItem)
                      (stakingVault stakingPool) (ParsedTokenAccount.pubkey tokenAccount) walletKey
                      amountToStake stakingTicket programId]))))"

definition getStakingTickets ::
  "constants \<Rightarrow> StakingTicketData layout \<Rightarrow> connection \<Rightarrow> PublicKey option
     \<Rightarrow> StakingTicket list" where
  "getStakingTickets K STAKING_TICKET_LAYOUT conn params_userKey =
    (let programId = STAKING_PROGRAM_ADDRESS K;
         filters = [DataSize (span STAKING_TICKET_LAYOUT)];
         filters1 = (case params_userKey of
                       None \<Rightarrow> filters
                     | Some k \<Rightarrow>
                         filters @ [Memcmp (offsetOf_or_0 STAKING_TICKET_LAYOUT ''userKey'') k]);
         tickets = getProgramAccounts conn programId filters1
     in map (\<lambda>t. StakingTicketData.extend (decode STAKING_TICKET_LAYOUT (data t))
                    (StakingTicket.fields (ProgramAccount.pubkey t)))
          tickets)"

definition endStakingTicket ::
  "constants \<Rightarrow> PublicKey \<Rightarrow> PublicKey \<Rightarrow> PublicKey \<Rightarrow> PublicKey \<Rightarrow> PublicKey \<Rightarrow> PublicKey
     \<Rightarrow> PublicKey \<Rightarrow> PublicKey \<Rightarrow> Transaction" where
  "endStakingTicket K walletKey poolKey farmingStateKey stakingSnapshots vault
       userStakingTokenAccount ticketKey poolSigner =
     add [] [Unstaking poolKey farmingStateKey stakingSnapshots vault vault
               userStakingTokenAccount poolSigner walletKey (STAKING_PROGRAM_ADDRESS K) ticketKey]"

text \<open>
  The test of \<^verbatim>\<open>endStaking\<close> on a ticket, with \<open>threshold\<close> the value of
  \<^verbatim>\<open>new BN(Date.now() / 1000).sub(new BN(3600))\<close>. For a number below \<open>2^53\<close>, as
  the clock in seconds is, \<^verbatim>\<open>new BN(number)\<close> is the number without its fraction.
\<close>

definition ticketToClose :: "constants \<Rightarrow> int \<Rightarrow> StakingTicket \<Rightarrow> bool" where
  "ticketToClose K threshold ticket \<longleftrightarrow>
     endTime ticket = DEFAULT_FARMING_TICKET_END_TIME K \<and> startTime ticket < threshold"

text \<open>
  \<^verbatim>\<open>endStaking\<close> returns the transactions it hands to \<^verbatim>\<open>sendTransaction\<close>, one
  per ticket, or the exception thrown before any is sent. \<open>now\<close> is \<^verbatim>\<open>Date.now()\<close>.
  When the walletKey has no token account, the key of a freshly generated one is used.
\<close>

definition endStaking ::
  "constants \<Rightarrow> StakingTicketData layout \<Rightarrow> connection \<Rightarrow> StakingPoolInfo \<Rightarrow> PublicKey \<Rightarrow> rat
     \<Rightarrow> error + Transaction list" where
  "endStaking K STAKING_TICKET_LAYOUT conn stakingPool walletKey now =
    (let programId = STAKING_PROGRAM_ADDRESS K;
         poolSigner = findProgramAddress conn (swapToken stakingPool) programId
     in case farming stakingPool of
          None \<Rightarrow> Inl (Error ''Dont have any farming tickets - cannot stake!'')
        | Some items \<Rightarrow>
       (case findFarmingStateItem items of
          None \<Rightarrow> Inl (Error ''Dont have farming item - cannot stake!'')
        | Some farmingStateItem \<Rightarrow>
            let tokenAccountPublicKey =
                  (case findTokenAccount conn walletKey stakingPool of
                     Some tokenAccount \<Rightarrow> ParsedTokenAccount.pubkey tokenAccount
                   | None \<Rightarrow> generate conn 0);
                tickets = getStakingTickets K STAKING_TICKET_LAYOUT conn (Some walletKey);
                ticketsToClose =
                  filter (ticketToClose K (js_trunc (now / 1000) - 3600)) tickets
            in if ticketsToClose = [] then Inl (Error ''No tickets, nothing to check'')
               else Inr (map (\<lambda>ticket.
                      endStakingTicket K walletKey (swapToken stakingPool)
                        (PoolFarmingResponse.farmingState farmingStateItem)
                        (farmingSnapshots farmingStateItem) (stakingVault stakingPool)
                        tokenAccountPublicKey (stakingTicketPublicKey ticket) poolSigner)
                    ticketsToClose)))"

definition getStakingState ::
  "constants \<Rightarrow> StakingStateData layout \<Rightarrow> connection \<Rightarrow> PublicKey \<Rightarrow> StakingState list" where
  "getStakingState K FARMING_STATE_LAYOUT conn poolKey =
    (let states = getProgramAccounts conn (STAKING_PROGRAM_ADDRESS K)
                    [DataSize (span FARMING_STATE_LAYOUT),
                     Memcmp (offsetOf_or_0 FARMING_STATE_LAYOUT ''pool'') poolKey]
     in map (\<lambda>state. StakingStateData.extend (decode FARMING_STATE_LAYOUT (data state))
                        (StakingState.fields (ProgramAccount.pubkey state)))
          states)"

text \<open>
  The farming calcs of \<^verbatim>\<open>claim\<close>: every state paired with the first calc account of
  that state, kept when \<^verbatim>\<open>sv.calcAccount?.tokenAmount.gtn(0)\<close>. Reading
  \<^verbatim>\<open>farmingCalcs[0].state\<close> from an empty array is a TypeError of the runtime.
\<close>

definition farmingCalcs ::
  "StakingState list \<Rightarrow> FarmingCalc list \<Rightarrow> (StakingState \<times> FarmingCalc option) list" where
  "farmingCalcs states calcAccounts =
    (let stateKeys = map statePublicKey states;
         calcAccountsForStates =
           filter (\<lambda>ca. FarmingCalcData.farmingState ca \<in> set stateKeys) calcAccounts
     in filter (\<lambda>sv. case snd sv of None \<Rightarrow> False | Some ca \<Rightarrow> 0 < tokenAmount ca)
          (map (\<lambda>state.
                  (state,
                   find (\<lambda>ca. FarmingCalcData.farmingState ca = statePublicKey state)
                     calcAccountsForStates))
             states))"

definition claim ::
  "constants \<Rightarrow> StakingStateData layout \<Rightarrow> FarmingCalcData layout \<Rightarrow> connection
     \<Rightarrow> StakingPoolInfo \<Rightarrow> PublicKey \<Rightarrow> error + Transaction" where
  "claim K FARMING_STATE_LAYOUT FARMING_CALC_LAYOUT conn stakingPool walletKey =
    (let programId = STAKING_PROGRAM_ADDRESS K;
         poolKey = swapToken stakingPool;
         poolSigner = findProgramAddress conn poolKey programId
     in case farming stakingPool of
          None \<Rightarrow> Inl (Error ''Dont have any farming tickets - cannot claim!'')
        | Some items \<Rightarrow>
       (case findFarmingStateItem items of
          None \<Rightarrow> Inl (Error ''Dont have farming item - cannot claim!'')
        | Some farmingStateItem \<Rightarrow>
            let tokenAccountPublicKey =
                  (case findTokenAccount conn walletKey stakingPool of
                     Some tokenAccount \<Rightarrow> ParsedTokenAccount.pubkey tokenAccount
                   | None \<Rightarrow> generate conn 0);
                states = getStakingState K FARMING_STATE_LAYOUT conn poolKey;
                calcs = getProgramAccounts conn programId [DataSize (span FARMING_CALC_LAYOUT)];
                calcAccounts =
                  map (\<lambda>calc. FarmingCalcData.extend (decode FARMING_CALC_LAYOUT (data calc))
                                 (FarmingCalc.fields (ProgramAccount.pubkey calc)))
                    calcs
            in (case farmingCalcs states calcAccounts of
                  [] \<Rightarrow> Inl TypeError
                | first # rest \<Rightarrow>
                    Inr (add []
                      [WithdrawFarmed (swapToken stakingPool)
                         (PoolFarmingResponse.farmingState farmingStateItem)
                         (PoolFarmingResponse.farmingTokenVault farmingStateItem)
                         (statePublicKey (fst first)) tokenAccountPublicKey poolSigner walletKey
                         programId]))))"

section \<open>The predefined pools\<close>

text \<open>
  \<^verbatim>\<open>AUTHORIZED_POOLS\<close> and \<^verbatim>\<open>PERMISSIONLESS_POOLS\<close> are object literals: the
  property names in source order, each with its pool description.
\<close>

definition AUTHORIZED_POOLS :: "(string \<times> Pool) list" where
  "AUTHORIZED_POOLS =
    [(''RIN_USDC'',
       \<lparr>poolPublicKey = ''Gubmyfw5Ekdp4pkXk9be5yNckSgCdgd7JEThx8SFzCQQ'',
        poolMint = ''Gathk79qZfJ4G36M7hiL3Ef1P5SDt7Xhm2C1vPhtWkrw'',
        baseTokenMint = ''E5ndSkaB17Dm7CsD22dvcjfrYSDLCxFcMd6z8ddCk5wp'',
        quoteTokenMint = ''EPjFWdd5AufqSSqeM2qN1xzybapC8G4wEGGkZwyTDt1v'',
        baseTokenVault = ''8YuEKfvSwcfNKvdoHijzrUAgEeevj4529m8SddSYQ8FV'',
        quoteTokenVault = ''5P7J5sPvJmdnNX4JuhGDsNRnTihVMY8q4dHHbbmQUouJ'',
        poolVersion = None\<rparr>),
     (''RIN_SOL'',
       \<lparr>poolPublicKey = ''7nrkzur3LUxgfxr3TBj9GpUsiABCwMgzwtNhHKG4hPYz'',
        poolMint = ''HFNv9CeUtKFKm7gPoX1QG1NnrPnDhA5W6xqHGxmV6kxX'',
        baseTokenMint = ''E5ndSkaB17Dm7CsD22dvcjfrYSDLCxFcMd6z8ddCk5wp'',
        quoteTokenMint = ''So11111111111111111111111111111111111111112'',
        baseTokenVault = ''3reyueV93V8CxXakMk4FF96uqBibDS9Di7zWgjxhkqt7'',
        quoteTokenVault = ''3LX2NHkUux6gGjiQXY2nMCnLTr9QuCjguqh7KTwaupV5'',
        poolVersion = None\<rparr>),
     (''mSOL_USDT'',
       \<lparr>poolPublicKey = ''FC4sYMpsMvdsq8hHMEtmWA8xN25W71t2c7RycU5juX35'',
        poolMint = ''77qHkg6TEe4FuZAr35bthTEadmT4ueWe1xomFFZkwiGQ'',
        baseTokenMint = ''mSoLzYCxHdYgdzU16g5QSh3i5K3z3KZK7ytfqcJm7So'',
        quoteTokenMint = ''Es9vMFrzaCERmJfrF4H2FYD4KCoNkY11McCe8BenwNYB'',
        baseTokenVault = ''4aiKnDHFmNnLsopVsDyRBh8sbVohZYgdGzh3P9orpqNB'',
        quoteTokenVault = ''HFHGsYQyni5gFMGudaHWpRzN5CejNpHr42PfQ4D6aGZM'',
        poolVersion = None\<rparr>),
     (''mSOL_ETH'',
       \<lparr>poolPublicKey = ''2JANvFVV2M8dv7twzL1EF3PhEJaoJpvSt6PhnjW6AHG6'',
        poolMint = ''4KeZGuXPq9fyZdt5sfzHMM36mxTf3oSkDaa4Y4gHm9Hz'',
        baseTokenMint = ''mSoLzYCxHdYgdzU16g5QSh3i5K3z3KZK7ytfqcJm7So'',
        quoteTokenMint = ''2FPyTwcZLUg1MDrwsyoP4D6s1tM7hAkHYRjkNb5w6Pxk'',
        baseTokenVault = ''9MaVbwbZw3LgFTNAPfDj4viRAffXFGaAdJWfX3ifouHf'',
        quoteTokenVault = ''6YwwwDQcQz5qAEipFJXHe3vBMKDcs9nfZXLitEubMxFc'',
        poolVersion = None\<rparr>),
     (''mSOL_BTC'',
       \<lparr>poolPublicKey = ''13FjT6LMUH9LQLQn6KGjJ1GNXKvgzoDSdxvHvAd4hcan'',
        poolMint = ''9hkYqNM8QSx2vTwspaNg5VvW1LBxKWWgud8pCVdxKYZU'',
        baseTokenMint = ''mSoLzYCxHdYgdzU16g5QSh3i5K3z3KZK7ytfqcJm7So'',
        quoteTokenMint = ''9n4nbM75f5Ui33ZbPYXn59EwSgE8CGsHtAeTH5YFeJ9E'',
        baseTokenVault = ''EhWAErmyrX8nT1eT8HVFw37amsEkm5VjKZH4ZUreDRCs'',
        quoteTokenVault = ''Fpy5DXqdz7mfLDF8PYKVzxQrYtsaiQu36fLpv6gmGseH'',
        poolVersion = None\<rparr>),
     (''mSOL_USDC'',
       \<lparr>poolPublicKey = ''Af4TpzGpo8Yc61bCNwactPKH9F951tHPzp8XGxWRLNE1'',
        poolMint = ''H37kHxy82uLoF8t86wK414KzpVJy7uVJ9Kvt5wYsTGPh'',
        baseTokenMint = ''mSoLzYCxHdYgdzU16g5QSh3i5K3z3KZK7ytfqcJm7So'',
        quoteTokenMint = ''EPjFWdd5AufqSSqeM2qN1xzybapC8G4wEGGkZwyTDt1v'',
        baseTokenVault = ''BEPiCaDinG2uLSBKjiVGAdDV32dwiemANKJYejtpbT2h'',
        quoteTokenVault = ''9CDfE5NfRcQomM7bZ2fCBLe9XKebmu8QY5tBHzojS8d8'',
        poolVersion = None\<rparr>),
     (''SOL_USDC'',
       \<lparr>poolPublicKey = ''4GUniSDrCAZR3sKtLa1AWC8oyYubZeKJQ8KraQmy3Wt5'',
        poolMint = ''3sbMDzGtyHAzJqzxE7DPdLMhrsxQASYoKLkHMYJPuWkp'',
        baseTokenMint = ''So11111111111111111111111111111111111111112'',
        quoteTokenMint = ''EPjFWdd5AufqSSqeM2qN1xzybapC8G4wEGGkZwyTDt1v'',
        baseTokenVault = ''CLt1DtCioiByTizqLhxLAXweXr2g9D4ZEAStibACBg4L'',
        quoteTokenVault = ''2M1JTZsc71V6FhRNjCDSttcs17HewC4KNNNkkc81L3gB'',
        poolVersion = None\<rparr>),
     (''mSOL_UST'',
       \<lparr>poolPublicKey = ''EnKhda5n5LYbZjPv7d7WChkSXzo5RgV8eSVVkGCXsQUn'',
        poolMint = ''BE7eTJ8DB7xTu6sKsch4gWDCXbD48PLGesRLx7E1Qce4'',
        baseTokenMint = ''mSoLzYCxHdYgdzU16g5QSh3i5K3z3KZK7ytfqcJm7So'',
        quoteTokenMint = ''9vMJfxuKxXBoEa7rM12mYLMwTacLMLDJqHozw96WQL8i'',
        baseTokenVault = ''29jNBEn9VEvM5ppVLGThrGc7ExnT3WyNhYyqbizpyNFK'',
        quoteTokenVault = ''6RmiUpwLquyQWVMeYx4oktQvtCuUH48fzRMwbC5kUa4h'',
        poolVersion = None\<rparr>),
     (''mSOL_MNGO'',
       \<lparr>poolPublicKey = ''CAHchWN1xoxNvXmqmmj6U834ip585rXZbh9NkvE9vTea'',
        poolMint = ''EotLYRsnRVqR3euN24P9PMXCqJv1WLsV8kJxR9o1y4U7'',
        baseTokenMint = ''mSoLzYCxHdYgdzU16g5QSh3i5K3z3KZK7ytfqcJm7So'',
        quoteTokenMint = ''MangoCzJ36AjZyKwVj3VnYU4GTonjfVEnJmvvWaxLac'',
        baseTokenVault = ''FE3PR8sbojxrxWoTzuLHhDX5hAXfPocS9wCruSJ2y7BF'',
        quoteTokenVault = ''CJzgYvbf2pv6HiTu13ymSVDSRmVQFoF8rkFYvwDNWVJL'',
        poolVersion = None\<rparr>)]"

definition PERMISSIONLESS_POOLS :: "(string \<times> Pool) list" where
  "PERMISSIONLESS_POOLS =
    [(''SLX_USDC'',
       \<lparr>poolPublicKey = ''Hv5F48Br7dbZvUpKFuyxxuaC4v95C1uyDGhdkFFCc9Gf'',
        poolMint = ''E3XeF4QCTMMo8P5yrgqNMvoRJMyVPTNHhWkbRCgoeAfC'',
        baseTokenMint = ''AASdD9rAefJ4PP7iM89MYUsQEyCQwvBofhceZUGDh5HZ'',
        quoteTokenMint = ''EPjFWdd5AufqSSqeM2qN1xzybapC8G4wEGGkZwyTDt1v'',
        baseTokenVault = ''BWwtpKxkKJSe4Vv9Ha6iGxdgWwxvy2k6qwooE6WjwUhG'',
        quoteTokenVault = ''EF9M6hDSSTZhwdSrpKvkHn33EafZfRtaFQ9rq6MfqALm'',
        poolVersion = None\<rparr>),
     (''DATE_USDC'',
       \<lparr>poolPublicKey = ''F5MWosWE681D32N5QHbWWaJrXaMAD2PHhDsEr2Sac56X'',
        poolMint = ''3gigDvmgCuz2gWRhr6iSxH1gCd1k4LpYoUsxEjLWJcLB'',
        baseTokenMint = ''Ce3PSQfkxT5ua4r2JqCoWYrMwKWC5hEzwsrT9Hb7mAz9'',
        quoteTokenMint = ''EPjFWdd5AufqSSqeM2qN1xzybapC8G4wEGGkZwyTDt1v'',
        baseTokenVault = ''A9FRb9MyAipfzEwkbF5euJ2dE7Bcj1GHBhdSdN8KBkoE'',
        quoteTokenVault = ''EVdVfqSEhumJmL3adAs4qCpEGGBGUoTdqG1krqMDboi4'',
        poolVersion = None\<rparr>),
     (''OOGI_USDC'',
       \<lparr>poolPublicKey = ''6sKC96Z35vCNcDmA3ZbBd9Syx5gnTJdyNKVEdzpBE5uX'',
        poolMint = ''46EsyeSzs6tBoTRmFiGfDzGQe13LP337C7mMtdNMkgcU'',
        baseTokenMint = ''H7Qc9APCWWGDVxGD5fJHmLTmdEgT9GFatAKFNg6sHh8A'',
        quoteTokenMint = ''EPjFWdd5AufqSSqeM2qN1xzybapC8G4wEGGkZwyTDt1v'',
        baseTokenVault = ''8fJUjr1o5i48R4URoQXDVbXmjrAUcRZWFkc2U2TMvgEd'',
        quoteTokenVault = ''AdgHaAavPxwjBVw966dZPA9h9MbkbYXAXViGiQRBXMNJ'',
        poolVersion = None\<rparr>)]"

section \<open>Notions used to state the properties of swap\<close>

text \<open>
  The user token accounts \<^verbatim>\<open>swap\<close> works with (the supplied one, or the key generated
  for the account it creates), the income side of the swap, and the token account of the
  referral wallet for the income mint, if it owns one.
\<close>

definition swap_userBase :: "connection \<Rightarrow> SwapParams \<Rightarrow> PublicKey" where
  "swap_userBase conn params =
     (case userBaseTokenAccount params of Some a \<Rightarrow> a | None \<Rightarrow> generate conn 0)"

definition swap_userQuote :: "connection \<Rightarrow> SwapParams \<Rightarrow> PublicKey" where
  "swap_userQuote conn params =
     (case userQuoteTokenAccount params of
        Some a \<Rightarrow> a
      | None \<Rightarrow> generate conn (if userBaseTokenAccount params = None then 1 else 0))"

definition swap_generated :: "SwapParams \<Rightarrow> nat" where
  "swap_generated params =
     (if userBaseTokenAccount params = None then 1 else 0)
     + (if userQuoteTokenAccount params = None then 1 else 0)"

definition incomeMint :: "SwapParams \<Rightarrow> PublicKey" where
  "incomeMint params =
     (if side params = ASK then quoteTokenMint (SwapParams.pool params)
      else baseTokenMint (SwapParams.pool params))"

definition incomeAccount :: "connection \<Rightarrow> SwapParams \<Rightarrow> PublicKey" where
  "incomeAccount conn params =
     (if side params = ASK then swap_userQuote conn params else swap_userBase conn params)"

definition referralTokenAccount ::
  "connection \<Rightarrow> SwapParams \<Rightarrow> ReferralParams \<Rightarrow> PublicKey option" where
  "referralTokenAccount conn params rp =
     map_option pubkey
       (find (\<lambda>wt. mint wt = incomeMint params)
          (getParsedTokenAccountsByOwner conn (referralAccount rp)))"

text \<open>
  The entries of the transaction of \<^verbatim>\<open>swap\<close>: the accounts created for the user, the
  swap instruction itself, and the accounts closed at the end.
\<close>

definition swap_creates :: "connection \<Rightarrow> SwapParams \<Rightarrow> Transaction" where
  "swap_creates conn params =
     (case userBaseTokenAccount params of
        None \<Rightarrow> [CreateTokenAccount (SwapParams.wallet params)
                   (baseTokenMint (SwapParams.pool params))
                   (if side params = ASK
                    then Some (outcomeAmount params + TOKEN_ACCOUNT_RENT_LAMPORTS) else None)
                   None (swap_userBase conn params)]
      | Some a \<Rightarrow> [])
     @ (case userQuoteTokenAccount params of
          None \<Rightarrow> [CreateTokenAccount (SwapParams.wallet params)
                     (quoteTokenMint (SwapParams.pool params))
                     (if side params = BID
                      then Some (outcomeAmount params + TOKEN_ACCOUNT_RENT_LAMPORTS) else None)
                     None (swap_userQuote conn params)]
        | Some a \<Rightarrow> [])"

definition swap_instruction :: "constants \<Rightarrow> connection \<Rightarrow> SwapParams \<Rightarrow> int \<Rightarrow> instruction" where
  "swap_instruction K conn params minIncome =
     Swap params minIncome
       (findProgramAddress conn (poolPublicKey (SwapParams.pool params))
          (getPoolAddress K (poolVersion_or_default (SwapParams.pool params))))
       (SwapParams.wallet params) (swap_userBase conn params) (swap_userQuote conn params)
       (poolVersion_or_default (SwapParams.pool params))"

definition swap_closes :: "constants \<Rightarrow> connection \<Rightarrow> SwapParams \<Rightarrow> Transaction" where
  "swap_closes K conn params =
     (if baseTokenMint (SwapParams.pool params) = SOL_MINT K
      then [CloseAccount (TOKEN_PROGRAM_ID K) (swap_userBase conn params)
              (SwapParams.wallet params) (SwapParams.wallet params)]
      else [])
     @ (if quoteTokenMint (SwapParams.pool params) = SOL_MINT K
        then [CloseAccount (TOKEN_PROGRAM_ID K) (swap_userQuote conn params)
                (SwapParams.wallet params) (SwapParams.wallet params)]
        else [])"

text \<open>
  The order of the entries as the specification words it: an account creation for each
  user token account that was not supplied, the swap, a transfer if and only if there are
  referral parameters, and a closing of each user token account whose mint is the SOL mint.
\<close>

datatype kind =
  CreateTokenAccountKind | SwapKind | TransferKind | CloseAccountKind | OtherKind

fun kind_of :: "instruction \<Rightarrow> kind" where
  "kind_of (CreateTokenAccount owner mnt amt payer key) = CreateTokenAccountKind"
| "kind_of (Swap params minIncome signer authority base quote version) = SwapKind"
| "kind_of (Transfer program source destination owner amt) = TransferKind"
| "kind_of (CloseAccount program account destination owner) = CloseAccountKind"
| "kind_of other = OtherKind"

definition spec_swap_order :: "constants \<Rightarrow> SwapParams \<Rightarrow> kind list" where
  "spec_swap_order K params =
     (if userBaseTokenAccount params = None then [CreateTokenAccountKind] else [])
     @ (if userQuoteTokenAccount params = None then [CreateTokenAccountKind] else [])
     @ [SwapKind]
     @ (if referralParams params \<noteq> None then [TransferKind] else [])
     @ (if baseTokenMint (SwapParams.pool params) = SOL_MINT K then [CloseAccountKind] else [])
     @ (if quoteTokenMint (SwapParams.pool params) = SOL_MINT K then [CloseAccountKind] else [])"

text \<open>The filters \<^verbatim>\<open>getStakingTickets\<close> hands to the account query.\<close>

definition ticketFilters :: "StakingTicketData layout \<Rightarrow> PublicKey option \<Rightarrow> filter list" where
  "ticketFilters L params_userKey =
     (case params_userKey of
        None \<Rightarrow> [DataSize (span L)]
      | Some k \<Rightarrow> [DataSize (span L), Memcmp (offsetOf_or_0 L ''userKey'') k])"

section \<open>Example inputs\<close>

text \<open>
  Concrete values for the imported constants and a small network state, used to evaluate
  the operations. With \<open>example_connection\<close> the pool mint has a supply of 3, the base
  vault holds 10 and every other token account 20; the referral wallet \<open>referral\<close> owns
  no token account.
\<close>

definition example_constants :: constants where
  "example_constants =
     \<lparr>POOLS_PROGRAM_ADDRESS = ''pools-v1'',
      POOLS_V2_PROGRAM_ADDRESS = ''pools-v2'',
      STAKING_PROGRAM_ADDRESS = ''staking'',
      TOKEN_PROGRAM_ID = ''token-program'',
      SOL_MINT = ''sol'',
      PRECISION_NOMINATOR = 1000000,
      DEFAULT_FARMING_TICKET_END_TIME = 9223372036854775807,
      CURVE_PRODUCT = 0,
      accountDiscriminator = (\<lambda>name. name)\<rparr>"

definition example_pool :: Pool where
  "example_pool =
     \<lparr>poolPublicKey = ''pool'', poolMint = ''pool-mint'', baseTokenMint = ''base-mint'',
      quoteTokenMint = ''quote-mint'', baseTokenVault = ''base-vault'',
      quoteTokenVault = ''quote-vault'', poolVersion = None\<rparr>"

definition example_connection :: connection where
  "example_connection =
     \<lparr>findProgramAddress = (\<lambda>seed programId. ''signer''),
      generate = (\<lambda>n. if n = 0 then ''new-0'' else ''new-1''),
      getMintInfo_supply = (\<lambda>k. 3),
      getTokenAccount_amount = (\<lambda>k. if k = ''base-vault'' then 10 else 20),
      getParsedTokenAccountsByOwner = (\<lambda>owner. []),
      getProgramAccounts = (\<lambda>programId filters. [])\<rparr>"

text \<open>
  A second network state, where the pool mint has a supply of \<open>2^26\<close> and every token
  account holds 1, and parameters for the three operations. The referral percentage of the
  two referral examples is 1.
\<close>

definition example_connection_large :: connection where
  "example_connection_large =
     \<lparr>findProgramAddress = (\<lambda>seed programId. ''signer''),
      generate = (\<lambda>n. if n = 0 then ''new-0'' else ''new-1''),
      getMintInfo_supply = (\<lambda>k. 67108864),
      getTokenAccount_amount = (\<lambda>k. 1),
      getParsedTokenAccountsByOwner = (\<lambda>owner. []),
      getProgramAccounts = (\<lambda>programId filters. [])\<rparr>"

definition example_deposit_params :: DepositLiquidityParams where
  "example_deposit_params =
     \<lparr>DepositLiquidityParams.pool = example_pool, maxBaseTokenAmount = 1, wallet = ''wallet'',
      slippage = None, userPoolTokenAccount = Some ''user-pool''\<rparr>"

definition example_withdraw_params :: WithdrawLiquidityParams where
  "example_withdraw_params =
     \<lparr>WithdrawLiquidityParams.pool = example_pool, poolTokenAmount = 2, wallet = ''wallet'',
      slippage = None, baseTokenReturnedMin = Some 67108864,
      quoteTokenReturnedMin = Some 67108864,
      userBaseTokenAccount = Some ''user-base'', userQuoteTokenAccount = Some ''user-quote''\<rparr>"

definition example_swap_params :: SwapParams where
  "example_swap_params =
     \<lparr>SwapParams.pool = example_pool, referralParams = None, slippage = None, side = BID,
      wallet = ''wallet'', outcomeAmount = 5, minIncomeAmount = 1001,
      userBaseTokenAccount = Some ''user-base'', userQuoteTokenAccount = Some ''user-quote''\<rparr>"

definition example_referral_swap_params :: SwapParams where
  "example_referral_swap_params =
     example_swap_params
       \<lparr>referralParams :=
          Some \<lparr>referralAccount = ''referral'', referralPercent = 1, createTokenAccounts = True\<rparr>\<rparr>"

definition example_referral_swap_params_no_create :: SwapParams where
  "example_referral_swap_params_no_create =
     example_swap_params
       \<lparr>referralParams :=
          Some \<lparr>referralAccount = ''referral'', referralPercent = 1, createTokenAccounts = False\<rparr>\<rparr>"

text \<open>
  Layouts with fixed decoders, a network state with two program accounts and a token
  account of the wallet for the staking mint, and a staking pool whose farming list is a
  parameter; \<open>example_farming_item\<close> has \<open>tokensTotal\<close> different from
  \<open>tokensUnlocked\<close>.
\<close>

definition example_pool_layout :: "object layout" where
  "example_pool_layout =
     \<lparr>span = 474,
      offsetOf = (\<lambda>name. if name = ''poolMint'' then Some 72 else None),
      decode = (\<lambda>bytes. [''poolMint'' \<mapsto> BytesField bytes, ''curveType'' \<mapsto> NumberField 1])\<rparr>"

definition example_ticket_layout :: "StakingTicketData layout" where
  "example_ticket_layout =
     \<lparr>span = 112,
      offsetOf = (\<lambda>name. if name = ''userKey'' then Some 8 else None),
      decode = (\<lambda>bytes. \<lparr>userKey = ''wallet'', startTime = int (length bytes),
                           endTime = 9223372036854775807\<rparr>)\<rparr>"

definition example_connection_accounts :: connection where
  "example_connection_accounts =
     \<lparr>findProgramAddress = (\<lambda>seed programId. ''signer''),
      generate = (\<lambda>n. if n = 0 then ''new-0'' else ''new-1''),
      getMintInfo_supply = (\<lambda>k. 3),
      getTokenAccount_amount = (\<lambda>k. 20),
      getParsedTokenAccountsByOwner =
        (\<lambda>owner. [\<lparr>pubkey = ''user-staking'', mint = ''staking-mint''\<rparr>]),
      getProgramAccounts =
        (\<lambda>programId filters.
           [\<lparr>ProgramAccount.pubkey = ''account-1'', data = [1]\<rparr>, \<lparr>ProgramAccount.pubkey = ''account-2'', data = [2, 2]\<rparr>])\<rparr>"

definition example_farming_item :: PoolFarmingResponse where
  "example_farming_item =
     \<lparr>PoolFarmingResponse.farmingState = ''farming-state'',
      farmingTokenVault = ''farming-vault'', farmingSnapshots = ''snapshots'',
      tokensTotal = 10, tokensUnlocked = 4\<rparr>"

definition example_staking_pool :: "PoolFarmingResponse list option \<Rightarrow> StakingPoolInfo" where
  "example_staking_pool items =
     \<lparr>swapToken = ''swap-token'', poolTokenMint = ''staking-mint'',
      stakingVault = ''staking-vault'', farming = items\<rparr>"

definition example_state_layout :: "StakingStateData layout" where
  "example_state_layout =
     \<lparr>span = 200, offsetOf = (\<lambda>name. None),
      decode = (\<lambda>bytes. \<lparr>StakingStateData.farmingTokenVault = ''farming-vault''\<rparr>)\<rparr>"

definition example_calc_layout :: "FarmingCalcData layout" where
  "example_calc_layout =
     \<lparr>span = 100, offsetOf = (\<lambda>name. None),
      decode = (\<lambda>bytes. \<lparr>FarmingCalcData.farmingState = ''account-1'', tokenAmount = 0\<rparr>)\<rparr>"

section \<open>Properties of the big-integer arithmetic\<close>

lemma js_trunc_of_int: "js_trunc (of_int n) = n"
  by (simp add: js_trunc_def)

lemma and_mask26: "(k::int) AND 67108863 = k mod 67108864"
proof -
  have "k AND mask 26 = take_bit 26 k" by (simp add: take_bit_eq_mask)
  then show ?thesis by (simp add: take_bit_eq_mod mask_eq_exp_minus_1)
qed

lemma js_ToInt32_mask: "js_ToInt32 x AND 67108863 = js_trunc x mod 67108864"
proof -
  have d: "(67108864::int) dvd 4294967296" by simp
  have a: "(js_trunc x mod 4294967296) mod 67108864 = js_trunc x mod 67108864"
    using d by (rule mod_mod_cancel)
  have b: "(js_trunc x mod 4294967296 - 4294967296) mod 67108864 = js_trunc x mod 67108864"
    using a by (metis d mod_diff_right_eq dvd_imp_mod_0 diff_zero)
  show ?thesis by (simp add: and_mask26 js_ToInt32_def Let_def a b)
qed

lemma js_ToInt32_small: "0 \<le> n \<Longrightarrow> n < 2147483648 \<Longrightarrow> js_ToInt32 (of_int n) = n"
  by (simp add: js_ToInt32_def js_trunc_of_int Let_def)

lemma js_ToUint32_small: "0 \<le> n \<Longrightarrow> n < 4294967296 \<Longrightarrow> js_ToUint32 (of_int n) = n"
  by (simp add: js_ToUint32_def js_trunc_of_int)

lemma js_trunc_div26: "0 \<le> p \<Longrightarrow> js_trunc (of_int p / 67108864) = p div 67108864"
proof -
  assume "0 \<le> p"
  have "\<lfloor>(of_int p :: rat) / of_int 67108864\<rfloor> = p div 67108864"
    by (rule floor_divide_of_int_eq)
  then show ?thesis using \<open>0 \<le> p\<close> by (simp add: js_trunc_def)
qed


lemma js_ToInt32_trunc: "0 \<le> js_trunc y \<Longrightarrow> js_trunc y < 2147483648 \<Longrightarrow> js_ToInt32 y = js_trunc y"
  by (simp add: js_ToInt32_def Let_def)

lemma mul_bound:
  fixes x k :: int
  assumes "0 \<le> x" "x < 67108864" "0 \<le> k" "k < 67108864"
  shows "x * k \<le> 67108863 * 67108863"
proof -
  have "x * k \<le> 67108863 * k" using assms by (intro mult_right_mono) auto
  also have "\<dots> \<le> 67108863 * 67108863" using assms by (intro mult_left_mono) auto
  finally show ?thesis .
qed

lemma imuln_step_int:
  assumes x: "0 \<le> x" "x < 67108864" and k: "0 \<le> k" "k < 67108864"
      and c: "0 \<le> c" "c < 67108864"
  shows "imuln_step x (of_int k) c = ((x * k + c) mod 67108864, (x * k + c) div 67108864)"
proof -
  have p0: "0 \<le> x * k" using x k by simp
  have pb: "x * k \<le> 67108863 * 67108863" using x k by (rule mul_bound)
  have w: "of_int (js_ToInt32 (of_int x)) * (of_int k :: rat) = of_int (x * k)"
    using x by (simp add: js_ToInt32_small)
  have lo1: "js_ToInt32 (of_int (x * k)) AND 67108863 = (x * k) mod 67108864"
    using js_ToInt32_mask [of "of_int (x * k)"] js_trunc_of_int [of "x * k"] by (simp del: of_int_mult)
  have lo2: "js_ToInt32 (of_int c) AND 67108863 = c"
    using c by (simp add: js_ToInt32_mask js_trunc_of_int)
  have c1: "js_ToInt32 (of_int c) div 67108864 = 0"
    using c by (simp add: js_ToInt32_small)
  have dv: "(x * k) div 67108864 < 67108864" using pb by simp
  have dv0: "0 \<le> (x * k) div 67108864" using p0 by simp
  have c2: "js_ToInt32 (of_int (x * k) / 67108864) = (x * k) div 67108864"
  proof -
    have t: "js_trunc (of_int (x * k) / 67108864) = (x * k) div 67108864"
      using p0 by (rule js_trunc_div26)
    show ?thesis using js_ToInt32_trunc [of "of_int (x * k) / 67108864"] dv dv0 unfolding t by simp
  qed
  define lo where "lo = (x * k) mod 67108864 + c"
  have lo0: "0 \<le> lo" "lo < 134217728" using c by (simp_all add: lo_def)
  have c3: "js_ToUint32 (of_int lo) = lo" using lo0 by (simp add: js_ToUint32_small)
  have wd: "js_ToInt32 (of_int lo) AND 67108863 = lo mod 67108864"
    by (simp add: js_ToInt32_mask js_trunc_of_int)
  have step: "imuln_step x (of_int k) c = (lo mod 67108864, (x * k) div 67108864 + lo div 67108864)"
    unfolding imuln_step_def Let_def w lo1 lo2 c1 c2 lo_def[symmetric] c3 wd by simp
  have m: "lo mod 67108864 = (x * k + c) mod 67108864"
    unfolding lo_def by (simp add: mod_add_left_eq)
  have d: "(x * k) div 67108864 + lo div 67108864 = (x * k + c) div 67108864"
  proof -
    have "x * k + c = 67108864 * ((x * k) div 67108864) + lo"
      unfolding lo_def by simp
    then have "(x * k + c) div 67108864 = (67108864 * ((x * k) div 67108864) + lo) div 67108864"
      by simp
    also have "\<dots> = (x * k) div 67108864 + lo div 67108864"
      by simp
    finally show ?thesis by simp
  qed
  show ?thesis using step m d by simp
qed


lemma div_mod_bound:
  fixes x k c :: int
  assumes "0 \<le> x" "x < 67108864" "0 \<le> k" "k < 67108864" "0 \<le> c" "c < 67108864"
  shows "0 \<le> (x * k + c) div 67108864 \<and> (x * k + c) div 67108864 < 67108864"
proof -
  have "x * k \<le> 67108863 * 67108863" using assms(1-4) by (rule mul_bound)
  moreover have "0 \<le> x * k" using assms by simp
  ultimately have "0 \<le> x * k + c" "x * k + c < 67108864 * 67108864"
    using assms(5,6) by simp_all
  then show ?thesis by (simp add: div_less_iff_less_mult pos_imp_zdiv_nonneg_iff)
qed

lemma imuln_loop_int:
  assumes "\<forall>x\<in>set xs. 0 \<le> x \<and> x < 67108864" "0 \<le> k" "k < 67108864"
      "0 \<le> c" "c < 67108864"
  shows "BN_value (fst (imuln_loop xs (of_int k) c))
           + 67108864 ^ length xs * snd (imuln_loop xs (of_int k) c) = BN_value xs * k + c
         \<and> length (fst (imuln_loop xs (of_int k) c)) = length xs"
  using assms
proof (induction xs arbitrary: c)
  case Nil
  then show ?case by simp
next
  case (Cons x xs)
  have x: "0 \<le> x" "x < 67108864" using Cons.prems(1) by simp_all
  let ?c' = "(x * k + c) div 67108864"
  have st: "imuln_step x (of_int k) c = ((x * k + c) mod 67108864, ?c')"
    using x Cons.prems(2-5) by (rule imuln_step_int)
  have cb: "0 \<le> ?c' \<and> ?c' < 67108864"
    using x Cons.prems(2-5) by (rule div_mod_bound)
  have ih: "BN_value (fst (imuln_loop xs (of_int k) ?c'))
           + 67108864 ^ length xs * snd (imuln_loop xs (of_int k) ?c') = BN_value xs * k + ?c'
         \<and> length (fst (imuln_loop xs (of_int k) ?c')) = length xs"
    using Cons.IH [of ?c'] Cons.prems(1-3) cb by simp
  obtain ys c2 where r: "imuln_loop xs (of_int k) ?c' = (ys, c2)" by (cases "imuln_loop xs (of_int k) ?c'")
  have e: "imuln_loop (x # xs) (of_int k) c = ((x * k + c) mod 67108864 # ys, c2)"
    by (simp add: st r)
  have v: "BN_value ys + 67108864 ^ length xs * c2 = BN_value xs * k + ?c'" and l: "length ys = length xs"
    using ih r by simp_all
  have "BN_value ((x * k + c) mod 67108864 # ys) + 67108864 ^ length (x # xs) * c2
        = (x * k + c) mod 67108864 + 67108864 * (BN_value ys + 67108864 ^ length xs * c2)"
    by (simp add: algebra_simps)
  also have "\<dots> = (x * k + c) mod 67108864 + 67108864 * (BN_value xs * k + ?c')"
    by (simp only: v)
  also have "\<dots> = BN_value (x # xs) * k + c"
    by (simp add: algebra_simps)
  finally show ?case using e l by simp
qed

lemma BN_value_append: "BN_value (ys @ [c]) = BN_value ys + 67108864 ^ length ys * c"
  by (induction ys) (simp_all add: algebra_simps)

lemma imuln_int:
  assumes "\<forall>x\<in>set ws. 0 \<le> x \<and> x < 67108864" "0 \<le> k" "k < 67108864"
  shows "BN_value (imuln ws (of_int k)) = BN_value ws * k"
proof -
  obtain ys c where r: "imuln_loop ws (of_int k) 0 = (ys, c)" by (cases "imuln_loop ws (of_int k) 0")
  have "BN_value ys + 67108864 ^ length ws * c = BN_value ws * k + 0 \<and> length ys = length ws"
    using imuln_loop_int [OF assms, of 0] r by simp
  then show ?thesis by (cases "c = 0") (simp_all add: imuln_def r BN_value_append)
qed

lemma BN_words_range: "\<forall>x\<in>set (BN_words n). 0 \<le> x \<and> x < 67108864"
proof (induction n rule: BN_words.induct)
  case (1 n)
  show ?case
  proof (cases "n < 67108864")
    case True
    then show ?thesis by (simp add: BN_words.simps [of n])
  next
    case False
    then show ?thesis using 1 by (simp add: BN_words.simps [of n])
  qed
qed

lemma BN_value_words: "BN_value (BN_words n) = int n"
proof (induction n rule: BN_words.induct)
  case (1 n)
  show ?case
  proof (cases "n < 67108864")
    case True
    then show ?thesis by (simp add: BN_words.simps [of n])
  next
    case False
    then have "BN_value (BN_words n) = int (n mod 67108864) + 67108864 * int (n div 67108864)"
      using 1 by (simp add: BN_words.simps [of n])
    also have "\<dots> = int n" by (simp add: zdiv_int zmod_int)
    finally show ?thesis .
  qed
qed

lemma muln_int:
  assumes "0 \<le> k" "k < 67108864"
  shows "muln x (of_int k) = Inr (x * k)"
proof -
  have "BN_value (imuln (BN_words (nat \<bar>x\<bar>)) (of_int k)) = \<bar>x\<bar> * k"
    using imuln_int [OF BN_words_range assms] by (simp add: BN_value_words)
  moreover have "sgn x * (\<bar>x\<bar> * k) = x * k" by (simp add: mult_sgn_abs flip: mult.assoc)
  ultimately show ?thesis using assms by (simp add: muln_def Let_def)
qed

lemma trunc_div_nonneg: "0 \<le> a \<Longrightarrow> 0 < b \<Longrightarrow> trunc_div a b = a div b"
  by (simp add: trunc_div_def)

lemma floor_div_int:
  fixes x :: rat
  assumes n: "0 < n"
  shows "\<lfloor>x / of_int n\<rfloor> = \<lfloor>x\<rfloor> div n"
proof (rule floor_unique)
  let ?q = "\<lfloor>x\<rfloor> div n"
  have n': "(0::rat) < of_int n" using n by simp
  have "0 \<le> \<lfloor>x\<rfloor> mod n" using n by simp
  then have "?q * n \<le> \<lfloor>x\<rfloor>"
    using div_mult_mod_eq [of "\<lfloor>x\<rfloor>" n] by linarith
  then have "(of_int (?q * n) :: rat) \<le> of_int \<lfloor>x\<rfloor>" by (simp only: of_int_le_iff)
  also have "\<dots> \<le> x" by simp
  finally have "of_int ?q * of_int n \<le> x" by simp
  then show "of_int ?q \<le> x / of_int n" using n' by (simp add: pos_le_divide_eq)
  have "\<lfloor>x\<rfloor> mod n < n" using n by simp
  then have "\<lfloor>x\<rfloor> + 1 \<le> ?q * n + n"
    using div_mult_mod_eq [of "\<lfloor>x\<rfloor>" n] by linarith
  then have "(of_int (\<lfloor>x\<rfloor> + 1) :: rat) \<le> of_int (?q * n + n)" by (simp only: of_int_le_iff)
  moreover have "x < of_int (\<lfloor>x\<rfloor> + 1)" by linarith
  ultimately have "x < of_int (?q * n + n)" by linarith
  then have "x < (of_int ?q + 1) * of_int n" by (simp add: algebra_simps)
  then show "x / of_int n < of_int ?q + 1" using n' by (simp add: pos_divide_less_eq)
qed


lemma floor_div26: "js_trunc (w / 67108864) = \<lfloor>w\<rfloor> div 67108864" if "0 \<le> w" for w :: rat
proof -
  have "\<lfloor>w / of_int 67108864\<rfloor> = \<lfloor>w\<rfloor> div 67108864" by (rule floor_div_int) simp
  then show ?thesis using that by (simp add: js_trunc_def)
qed

lemma imuln_step_single:
  assumes x: "0 \<le> x" "x < 67108864" and num: "0 \<le> num" "num < 67108864"
  shows "imuln_step x num 0 =
           (\<lfloor>of_int x * num\<rfloor> mod 67108864, \<lfloor>of_int x * num\<rfloor> div 67108864)"
proof -
  define w where "w = of_int x * num"
  have w0: "0 \<le> w" using x num by (simp add: w_def)
  have "w \<le> of_int x * 67108864"
    unfolding w_def using x num by (intro mult_left_mono) auto
  also have "\<dots> < 67108864 * 67108864" using x by simp
  finally have wb: "w < 4503599627370496" by simp
  have f0: "0 \<le> \<lfloor>w\<rfloor>" using w0 by simp
  have fb: "\<lfloor>w\<rfloor> < 4503599627370496" using wb by (simp add: floor_less_iff)
  have tw: "js_trunc w = \<lfloor>w\<rfloor>" using w0 by (simp add: js_trunc_def)
  have xi: "of_int (js_ToInt32 (of_int x)) * num = w"
    using x by (simp add: js_ToInt32_small w_def)
  have lo1: "js_ToInt32 w AND 67108863 = \<lfloor>w\<rfloor> mod 67108864"
    by (simp add: js_ToInt32_mask tw)
  have lo2: "js_ToInt32 (of_int 0) AND 67108863 = 0" by (simp add: js_ToInt32_def js_trunc_def)
  have c1: "js_ToInt32 (of_int 0) div 67108864 = 0" by (simp add: js_ToInt32_def js_trunc_def)
  have d0: "0 \<le> \<lfloor>w\<rfloor> div 67108864" using f0 by (simp add: pos_imp_zdiv_nonneg_iff)
  have db: "\<lfloor>w\<rfloor> div 67108864 < 67108864"
  proof -
    define f where "f = \<lfloor>w\<rfloor>"
    have "f < 67108864 * 67108864" using fb by (simp add: f_def)
    then have "f div 67108864 < 67108864" by (simp add: div_less_iff_less_mult)
    then show ?thesis by (simp add: f_def)
  qed
  have c2: "js_ToInt32 (w / 67108864) = \<lfloor>w\<rfloor> div 67108864"
    using js_ToInt32_trunc [of "w / 67108864"] d0 db by (simp add: floor_div26 [OF w0])
  define lo where "lo = \<lfloor>w\<rfloor> mod 67108864"
  have lob: "0 \<le> lo" "lo < 67108864" by (simp_all add: lo_def)
  have c3: "js_ToUint32 (of_int lo) div 67108864 = 0" using lob by (simp add: js_ToUint32_small)
  have wd: "js_ToInt32 (of_int lo) AND 67108863 = lo"
    using lob by (simp add: js_ToInt32_mask js_trunc_of_int)
  have "imuln_step x num 0 = (lo, \<lfloor>w\<rfloor> div 67108864)"
    unfolding imuln_step_def Let_def xi lo1 lo2 c1 c2 add_0_right add_0_left lo_def [symmetric] c3 wd
    by simp
  then show ?thesis by (simp add: lo_def w_def)
qed

lemma muln_single:
  assumes x: "0 \<le> x" "x < 67108864" and num: "0 \<le> num" "num < 67108864"
  shows "muln x num = Inr \<lfloor>of_int x * num\<rfloor>"
proof -
  let ?f = "\<lfloor>of_int x * num\<rfloor>"
  have w: "BN_words (nat \<bar>x\<bar>) = [x]" using x by (simp add: BN_words.simps)
  have v: "BN_value (imuln [x] num) = ?f"
  proof -
    define f where "f = ?f"
    have st: "imuln_step x num 0 = (f mod 67108864, f div 67108864)"
      using imuln_step_single [OF x num] by (simp add: f_def)
    have dm: "f mod 67108864 + 67108864 * (f div 67108864) = f" by simp
    have "BN_value (imuln [x] num) = f"
      using dm by (cases "f div 67108864 = 0") (simp_all add: imuln_def st)
    then show ?thesis by (simp add: f_def)
  qed
  have f0: "0 \<le> ?f" using x num by simp
  show ?thesis
  proof (cases "x = 0")
    case True
    then show ?thesis using num by (simp add: muln_def Let_def w v)
  next
    case False
    then have "sgn x = 1" using x by simp
    then show ?thesis using num by (simp add: muln_def Let_def w v)
  qed
qed

lemma muln_floor:
  assumes x: "0 \<le> x" and num: "0 \<le> num" "num < 67108864"
    and ok: "x < 67108864 \<or> num \<in> \<int>"
  shows "muln x num = Inr \<lfloor>of_int x * num\<rfloor>"
proof (cases "x < 67108864")
  case True
  then show ?thesis using x num by (simp add: muln_single)
next
  case False
  then have "num \<in> \<int>" using ok by simp
  then obtain k where k: "num = of_int k" by (auto elim: Ints_cases)
  have "0 \<le> k" "k < 67108864" using num by (simp_all add: k)
  then have "muln x (of_int k) = Inr (x * k)" by (rule muln_int)
  moreover have "\<lfloor>(of_int x :: rat) * of_int k\<rfloor> = x * k"
    using floor_of_int [of "x * k", where ?'a = rat] by (simp del: floor_of_int)
  ultimately show ?thesis by (simp add: k)
qed

section \<open>Properties of the pool client\<close>



text \<open>The transaction of \<^verbatim>\<open>swap\<close>, block by block.\<close>

lemma createIfMissing_eq:
  "createIfMissing conn t n acc owner m amt =
     (case acc of Some a \<Rightarrow> a | None \<Rightarrow> generate conn n,
      t @ (case acc of None \<Rightarrow> [CreateTokenAccount owner m amt None (generate conn n)] | Some a \<Rightarrow> []),
      n + (case acc of None \<Rightarrow> 1 | Some a \<Rightarrow> 0))"
  by (simp add: createIfMissing_def add_def split: option.split)

lemma referralFee_eq:
  "referralFee K conn params t n minIncome (swap_userBase conn params) (swap_userQuote conn params) rp =
     bind_result (refFeeAmount K minIncome rp) (\<lambda>fee.
       case referralTokenAccount conn params rp of
         Some d \<Rightarrow> Inr (t @ [Transfer (TOKEN_PROGRAM_ID K) (incomeAccount conn params) d (SwapParams.wallet params) fee])
       | None \<Rightarrow>
           if createTokenAccounts rp
           then Inr (t @ [CreateTokenAccount (referralAccount rp) (incomeMint params) None (Some (SwapParams.wallet params)) (generate conn n),
                     Transfer (TOKEN_PROGRAM_ID K) (incomeAccount conn params) (generate conn n) (SwapParams.wallet params) fee])
           else Inl (Error ''No token account for referral wallet!''))"
  by (simp add: referralFee_def Let_def add_def referralTokenAccount_def incomeMint_def incomeAccount_def
        bind_result_def split: sum.split option.split)

lemma swap_accounts_eq:
  "(case createIfMissing conn [] 0 (userBaseTokenAccount params) (SwapParams.wallet params)
           (baseTokenMint (SwapParams.pool params))
           (if side params = ASK then Some (outcomeAmount params + TOKEN_ACCOUNT_RENT_LAMPORTS)
            else None) of
      (userBase, transaction1, n1) \<Rightarrow>
        case createIfMissing conn transaction1 n1 (userQuoteTokenAccount params)
               (SwapParams.wallet params) (quoteTokenMint (SwapParams.pool params))
               (if side params = BID then Some (outcomeAmount params + TOKEN_ACCOUNT_RENT_LAMPORTS)
                else None) of
          (userQuote, transaction2, n2) \<Rightarrow> f userBase userQuote transaction2 n2)
   = f (swap_userBase conn params) (swap_userQuote conn params) (swap_creates conn params)
       (swap_generated params)"
  by (cases "userBaseTokenAccount params"; cases "userQuoteTokenAccount params")
     (simp_all add: createIfMissing_eq swap_userBase_def swap_userQuote_def swap_generated_def
        swap_creates_def)

lemma swap_closes_eq:
  "closeIfSol K (closeIfSol K t (baseTokenMint (SwapParams.pool params)) (swap_userBase conn params)
       (SwapParams.wallet params))
     (quoteTokenMint (SwapParams.pool params)) (swap_userQuote conn params) (SwapParams.wallet params)
   = t @ swap_closes K conn params"
  by (simp add: closeIfSol_def add_def swap_closes_def)

lemma swap_eq:
  "swap K conn params =
    bind_result (swap_minIncomeAmount params) (\<lambda>minIncome.
    bind_result
      (case referralParams params of
         None \<Rightarrow> Inr (swap_creates conn params @ [swap_instruction K conn params minIncome])
       | Some rp \<Rightarrow>
           referralFee K conn params
             (swap_creates conn params @ [swap_instruction K conn params minIncome])
             (swap_generated params) minIncome
             (swap_userBase conn params) (swap_userQuote conn params) rp)
      (\<lambda>transaction4. Inr (transaction4 @ swap_closes K conn params)))"
  unfolding swap_def Let_def swap_accounts_eq swap_closes_eq add_def swap_instruction_def ..



text \<open>Evaluations on the example inputs.\<close>

lemma divn_nonneg: "0 \<le> a \<Longrightarrow> 0 < n \<Longrightarrow> n \<le> 67108863 \<Longrightarrow> divn a n = Inr (a div n)"
  by (simp add: divn_def trunc_div_nonneg)

lemma swap_minIncomeAmount_int:
  assumes "0 \<le> minIncomeAmount params"
    and "1000 - (case SwapParams.slippage params of None \<Rightarrow> 1 / 1000 | Some s \<Rightarrow> s) * 1000 = of_int k"
    and "0 \<le> k" and "k < 67108864"
  shows "swap_minIncomeAmount params = Inr ((minIncomeAmount params * k) div 1000)"
proof -
  have "muln (minIncomeAmount params) (of_int k) = Inr (minIncomeAmount params * k)"
    using assms(3,4) by (rule muln_int)
  moreover have "divn (minIncomeAmount params * k) 1000 = Inr ((minIncomeAmount params * k) div 1000)"
    using assms(1,3) by (simp add: divn_nonneg)
  ultimately show ?thesis
    using assms(2) by (simp add: swap_minIncomeAmount_def Let_def bind_result_def)
qed

lemma swap_contains_swap_instruction:
  assumes "swap K conn params = Inr tx" and "swap_minIncomeAmount params = Inr v"
  shows "swap_instruction K conn params v \<in> set tx"
proof (cases "referralParams params")
  case None
  then show ?thesis using assms by (auto simp: swap_eq bind_result_def)
next
  case (Some rp)
  then show ?thesis using assms
    by (auto simp: swap_eq referralFee_eq bind_result_def split: sum.splits option.splits if_splits)
qed

lemma BN_words_2_26: "BN_words 67108864 = [0, 1]"
  by (simp add: BN_words.simps)

lemma imuln_half: "imuln [0, 1] (1999 / 2) = [0, 999]"
  by code_simp

lemma imuln_99: "imuln [0, 1] (99 / 100) = [0, 0]"
  by code_simp

lemma imuln_999: "imuln [0, 1] (999 / 1000) = [0, 0]"
  by code_simp

lemma muln_2_26_99: "muln 67108864 (99 / 100) = Inr 0"
  by (simp add: muln_def BN_words_2_26 imuln_99)

lemma muln_2_26_999: "muln 67108864 (999 / 1000) = Inr 0"
  by (simp add: muln_def BN_words_2_26 imuln_999)

lemma depositLiquidity_example:
  "depositLiquidity example_constants example_connection_large example_deposit_params
     = Inr [DepositLiquidity example_deposit_params ''wallet'' ''signer'' ''user-pool'' 0 ''pools-v1'']"
  using muln_2_26_99
  by (simp add: depositLiquidity_def Let_def bind_result_def bn_div_def trunc_div_def
      createIfMissing_eq add_def getPoolAddress_def poolVersion_or_default_def
      example_constants_def example_connection_large_def example_deposit_params_def
      example_pool_def)

lemma withdrawLiquidity_example:
  "withdrawLiquidity example_constants example_connection_large example_withdraw_params
     = Inr [WithdrawLiquidity example_withdraw_params ''user-base'' ''user-quote'' 0 0 ''signer''
              ''wallet'' ''pools-v1'']"
  using muln_2_26_999
  by (simp add: withdrawLiquidity_def returnedMin_def Let_def bind_result_def
      createIfMissing_eq add_def getPoolAddress_def poolVersion_or_default_def
      example_constants_def example_connection_large_def example_withdraw_params_def
      example_pool_def)

lemma refFeeAmount_floor:
  assumes P: "0 < PRECISION_NOMINATOR K"
    and r: "0 \<le> referralPercent rp" "referralPercent rp < 67108864"
    and ok: "PRECISION_NOMINATOR K < 67108864 \<or> referralPercent rp \<in> \<int>"
    and m: "0 \<le> minIncome"
  shows "refFeeAmount K minIncome rp =
     Inr ((minIncome * \<lfloor>of_int (PRECISION_NOMINATOR K) * referralPercent rp / 100\<rfloor>)
          div PRECISION_NOMINATOR K)"
proof -
  let ?a = "\<lfloor>of_int (PRECISION_NOMINATOR K) * referralPercent rp\<rfloor>"
  have a: "muln (PRECISION_NOMINATOR K) (referralPercent rp) = Inr ?a"
    using P r ok by (intro muln_floor) simp_all
  have a0: "0 \<le> ?a" using P r by simp
  have b: "divn ?a 100 = Inr (?a div 100)" using a0 by (simp add: divn_nonneg)
  have "\<lfloor>of_int (PRECISION_NOMINATOR K) * referralPercent rp / of_int 100\<rfloor> = ?a div 100"
    by (rule floor_div_int) simp
  then have b': "?a div 100 = \<lfloor>of_int (PRECISION_NOMINATOR K) * referralPercent rp / 100\<rfloor>"
    by simp
  have b0: "0 \<le> ?a div 100" using a0 by (simp add: pos_imp_zdiv_nonneg_iff)
  have c: "bn_div (minIncome * (?a div 100)) (PRECISION_NOMINATOR K)
             = Inr ((minIncome * (?a div 100)) div PRECISION_NOMINATOR K)"
    using P m b0 by (simp add: bn_div_def trunc_div_nonneg)
  show ?thesis
    using c unfolding refFeeAmount_def a b bind_result_def sum.case b' .
qed

lemma swap_minIncomeAmount_example:
  "swap_minIncomeAmount (example_swap_params\<lparr>referralParams := r\<rparr>) = Inr 999"
  using swap_minIncomeAmount_int [of "example_swap_params\<lparr>referralParams := r\<rparr>" 999]
  by (simp add: example_swap_params_def)

lemma refFeeAmount_example:
  "refFeeAmount example_constants 999
     \<lparr>referralAccount = ''referral'', referralPercent = 1, createTokenAccounts = c\<rparr> = Inr 9"
  using refFeeAmount_floor [of example_constants
      "\<lparr>referralAccount = ''referral'', referralPercent = 1, createTokenAccounts = c\<rparr>" 999]
  by (simp add: example_constants_def)

lemma swap_example_parts:
  "swap_creates example_connection (example_swap_params\<lparr>referralParams := r\<rparr>) = []"
  "swap_closes example_constants example_connection (example_swap_params\<lparr>referralParams := r\<rparr>) = []"
  "swap_instruction example_constants example_connection
     (example_swap_params\<lparr>referralParams := r\<rparr>) v
   = Swap (example_swap_params\<lparr>referralParams := r\<rparr>) v ''signer'' ''wallet'' ''user-base''
       ''user-quote'' 1"
  "incomeMint (example_swap_params\<lparr>referralParams := r\<rparr>) = ''base-mint''"
  "incomeAccount example_connection (example_swap_params\<lparr>referralParams := r\<rparr>) = ''user-base''"
  "swap_generated (example_swap_params\<lparr>referralParams := r\<rparr>) = 0"
  "generate example_connection 0 = ''new-0''"
  "TOKEN_PROGRAM_ID example_constants = ''token-program''"
  "SwapParams.wallet (example_swap_params\<lparr>referralParams := r\<rparr>) = ''wallet''"
  "referralParams (example_swap_params\<lparr>referralParams := r\<rparr>) = r"
  by (simp_all add: example_swap_params_def example_pool_def example_connection_def
        example_constants_def swap_creates_def swap_instruction_def swap_closes_def
        swap_userBase_def swap_userQuote_def swap_generated_def incomeMint_def incomeAccount_def
        getPoolAddress_def poolVersion_or_default_def)

lemma referralTokenAccount_example:
  "referralTokenAccount example_connection (example_swap_params\<lparr>referralParams := r\<rparr>) rp = None"
  by (simp add: referralTokenAccount_def example_connection_def)

lemma swap_example_referral:
  "swap example_constants example_connection example_referral_swap_params =
     Inr [Swap example_referral_swap_params 999 ''signer'' ''wallet'' ''user-base'' ''user-quote'' 1,
          CreateTokenAccount ''referral'' ''base-mint'' None (Some ''wallet'') ''new-0'',
          Transfer ''token-program'' ''user-base'' ''new-0'' ''wallet'' 9]"
  unfolding swap_eq referralFee_eq example_referral_swap_params_def swap_minIncomeAmount_example
    swap_example_parts referralTokenAccount_example
  by (simp add: bind_result_def refFeeAmount_example)

lemma swap_example_referral_no_create:
  "swap example_constants example_connection example_referral_swap_params_no_create =
     Inl (Error ''No token account for referral wallet!'')"
  unfolding swap_eq referralFee_eq example_referral_swap_params_no_create_def
    swap_minIncomeAmount_example swap_example_parts referralTokenAccount_example
  by (simp add: bind_result_def refFeeAmount_example)






text \<open>
  C4. \<^verbatim>\<open>depositLiquidity\<close> and \<^verbatim>\<open>withdrawLiquidity\<close> apply the slippage by
  \<^verbatim>\<open>muln(1 - slippage)\<close>, a multiplication by a fraction. With a pool mint supply of
  \<open>2^26\<close>, a maximal base amount of 1, a base vault amount of 1 and the default slippage, the
  creation size in the deposit instruction is 0, where \<open>\<lfloor>2^26 * 0.99\<rfloor> = 66437775\<close>; with
  requested minimal amounts of \<open>2^26\<close> and the default slippage both minimal amounts in the
  withdraw instruction are 0, where \<open>\<lfloor>2^26 * 0.999\<rfloor> = 67041755\<close>.
\<close>

theorem liquidity_slippage_loses_limbs:
  "depositLiquidity example_constants example_connection_large example_deposit_params
     = Inr [DepositLiquidity example_deposit_params ''wallet'' ''signer'' ''user-pool'' 0 ''pools-v1'']
   \<and> \<lfloor>(67108864 :: rat) * (1 - 1 / 100)\<rfloor> = 66437775
   \<and> withdrawLiquidity example_constants example_connection_large example_withdraw_params
     = Inr [WithdrawLiquidity example_withdraw_params ''user-base'' ''user-quote'' 0 0 ''signer''
              ''wallet'' ''pools-v1'']
   \<and> \<lfloor>(67108864 :: rat) * (1 - 1 / 1000)\<rfloor> = 67041755"
proof -
  have f: "\<lfloor>(67108864 :: rat) * (1 - 1 / 100)\<rfloor> = 66437775"
    by code_simp
  have g: "\<lfloor>(67108864 :: rat) * (1 - 1 / 1000)\<rfloor> = 67041755"
    by code_simp
  show ?thesis using depositLiquidity_example withdrawLiquidity_example f g by simp
qed




text \<open>
  C1 (as amended). Every transaction \<^verbatim>\<open>swap\<close> sends consists, in this order, of: the
  creation of the user base token account if none was supplied; the creation of the user
  quote token account if none was supplied; the swap instruction; if and only if there are
  referral parameters, the creation of a token account for the referral wallet when it
  owns none for the income mint, followed by the transfer of the referral fee; if and only
  if the base token mint is the SOL mint, the closing of the user base token account; if
  and only if the quote token mint is the SOL mint, the closing of the user quote token
  account.
\<close>

theorem swap_instruction_order:
  assumes "swap K conn params = Inr tx"
  shows "\<exists>minIncome. swap_minIncomeAmount params = Inr minIncome \<and>
    (case referralParams params of
       None \<Rightarrow>
         tx = swap_creates conn params @ [swap_instruction K conn params minIncome]
              @ swap_closes K conn params
     | Some rp \<Rightarrow>
         (\<exists>fee. refFeeAmount K minIncome rp = Inr fee \<and>
           (case referralTokenAccount conn params rp of
              Some d \<Rightarrow>
                tx = swap_creates conn params
                     @ [swap_instruction K conn params minIncome,
                        Transfer (TOKEN_PROGRAM_ID K) (incomeAccount conn params) d
                          (SwapParams.wallet params) fee]
                     @ swap_closes K conn params
            | None \<Rightarrow>
                createTokenAccounts rp \<and>
                tx = swap_creates conn params
                     @ [swap_instruction K conn params minIncome,
                        CreateTokenAccount (referralAccount rp) (incomeMint params) None
                          (Some (SwapParams.wallet params))
                          (generate conn (swap_generated params)),
                        Transfer (TOKEN_PROGRAM_ID K) (incomeAccount conn params)
                          (generate conn (swap_generated params)) (SwapParams.wallet params) fee]
                     @ swap_closes K conn params)))"
  using assms
  by (auto simp: swap_eq referralFee_eq bind_result_def
        split: sum.splits option.splits if_splits)


theorem swap_instruction_order_witness:
  "\<exists>minIncome fee.
     swap_minIncomeAmount example_referral_swap_params = Inr minIncome \<and>
     [Swap example_referral_swap_params 999 ''signer'' ''wallet'' ''user-base'' ''user-quote'' 1,
      CreateTokenAccount ''referral'' ''base-mint'' None (Some ''wallet'') ''new-0'',
      Transfer ''token-program'' ''user-base'' ''new-0'' ''wallet'' 9]
     = swap_creates example_connection example_referral_swap_params
       @ [swap_instruction example_constants example_connection example_referral_swap_params
            minIncome,
          CreateTokenAccount ''referral'' ''base-mint'' None (Some ''wallet'') ''new-0'',
          Transfer ''token-program'' ''user-base'' ''new-0'' ''wallet'' fee]
       @ swap_closes example_constants example_connection example_referral_swap_params"
  using swap_instruction_order [OF swap_example_referral]
  unfolding example_referral_swap_params_def swap_example_parts referralTokenAccount_example
  by auto


text \<open>
  With referral parameters that ask for the creation of token accounts and a referral
  wallet without one, an account creation stands between the swap and the transfer.
\<close>

theorem swap_instruction_order_counterexample:
  "map_sum id (map kind_of)
     (swap example_constants example_connection example_referral_swap_params)
     = Inr [SwapKind, CreateTokenAccountKind, TransferKind]
   \<and> spec_swap_order example_constants example_referral_swap_params = [SwapKind, TransferKind]"
proof
  show "map_sum id (map kind_of)
     (swap example_constants example_connection example_referral_swap_params)
     = Inr [SwapKind, CreateTokenAccountKind, TransferKind]"
    unfolding swap_example_referral by simp
  show "spec_swap_order example_constants example_referral_swap_params = [SwapKind, TransferKind]"
    by (simp add: spec_swap_order_def example_referral_swap_params_def
        example_swap_params_def example_pool_def example_constants_def)
qed



lemma depositLiquidity_last:
  assumes "depositLiquidity K conn dp = Inr tx"
  shows "\<exists>account size.
           last tx = DepositLiquidity dp (DepositLiquidityParams.wallet dp)
             (findProgramAddress conn (poolPublicKey (DepositLiquidityParams.pool dp))
                (getPoolAddress K (poolVersion_or_default (DepositLiquidityParams.pool dp))))
             account size
             (getPoolAddress K (poolVersion_or_default (DepositLiquidityParams.pool dp)))"
  using assms
  by (auto simp: depositLiquidity_def Let_def bind_result_def createIfMissing_eq add_def
        split: sum.splits)

lemma withdrawLiquidity_last:
  assumes "withdrawLiquidity K conn wp = Inr tx"
  shows "\<exists>base quote baseMin quoteMin.
           last tx = WithdrawLiquidity wp base quote baseMin quoteMin
             (findProgramAddress conn (poolPublicKey (WithdrawLiquidityParams.pool wp))
                (getPoolAddress K (poolVersion_or_default (WithdrawLiquidityParams.pool wp))))
             (WithdrawLiquidityParams.wallet wp)
             (getPoolAddress K (poolVersion_or_default (WithdrawLiquidityParams.pool wp)))"
  using assms
  by (auto simp: withdrawLiquidity_def Let_def bind_result_def createIfMissing_eq add_def
        split: sum.splits prod.splits)

lemma swap_has_swap_instruction:
  assumes "swap K conn sp = Inr tx"
  shows "\<exists>minIncome. swap_instruction K conn sp minIncome \<in> set tx"
proof -
  obtain v where "swap_minIncomeAmount sp = Inr v"
    using assms by (cases "swap_minIncomeAmount sp") (auto simp: swap_eq bind_result_def)
  then show ?thesis using swap_contains_swap_instruction [OF assms] by blast
qed

lemma poolVersion_absent:
  "poolVersion p = None \<Longrightarrow> poolVersion_or_default p = 1"
  by (simp add: poolVersion_or_default_def)

lemma swap_example_plain:
  "swap example_constants example_connection example_swap_params =
     Inr [Swap example_swap_params 999 ''signer'' ''wallet'' ''user-base'' ''user-quote'' 1]"
proof -
  have e: "example_swap_params = example_swap_params\<lparr>referralParams := None\<rparr>"
    by (simp add: example_swap_params_def)
  have "swap example_constants example_connection (example_swap_params\<lparr>referralParams := None\<rparr>) =
     Inr [Swap (example_swap_params\<lparr>referralParams := None\<rparr>) 999 ''signer'' ''wallet''
            ''user-base'' ''user-quote'' 1]"
    unfolding swap_eq swap_minIncomeAmount_example swap_example_parts
    by (simp add: bind_result_def)
  then show ?thesis using e by simp
qed

text \<open>
  C8. \<^verbatim>\<open>getPoolAddress\<close> returns \<^verbatim>\<open>POOLS_PROGRAM_ADDRESS\<close> exactly when the version
  is 1 (the two program addresses being different) and \<^verbatim>\<open>POOLS_V2_PROGRAM_ADDRESS\<close>
  otherwise. For a pool without \<^verbatim>\<open>poolVersion\<close>, the deposit and the withdraw
  instruction carry \<^verbatim>\<open>POOLS_PROGRAM_ADDRESS\<close> as program and the pool signer derived
  from it, and the swap instruction carries that pool signer and the pool version 1.
\<close>

theorem absent_poolVersion_is_1:
  "(POOLS_PROGRAM_ADDRESS K \<noteq> POOLS_V2_PROGRAM_ADDRESS K \<longrightarrow>
      (getPoolAddress K v = POOLS_PROGRAM_ADDRESS K \<longleftrightarrow> v = 1))
   \<and> (v \<noteq> 1 \<longrightarrow> getPoolAddress K v = POOLS_V2_PROGRAM_ADDRESS K)
   \<and> (poolVersion (DepositLiquidityParams.pool dp) = None \<longrightarrow>
        (\<forall>tx. depositLiquidity K conn dp = Inr tx \<longrightarrow>
           (\<exists>account size.
              last tx = DepositLiquidity dp (DepositLiquidityParams.wallet dp)
                (findProgramAddress conn (poolPublicKey (DepositLiquidityParams.pool dp))
                   (POOLS_PROGRAM_ADDRESS K))
                account size (POOLS_PROGRAM_ADDRESS K))))
   \<and> (poolVersion (WithdrawLiquidityParams.pool wp) = None \<longrightarrow>
        (\<forall>tx. withdrawLiquidity K conn wp = Inr tx \<longrightarrow>
           (\<exists>base quote baseMin quoteMin.
              last tx = WithdrawLiquidity wp base quote baseMin quoteMin
                (findProgramAddress conn (poolPublicKey (WithdrawLiquidityParams.pool wp))
                   (POOLS_PROGRAM_ADDRESS K))
                (WithdrawLiquidityParams.wallet wp) (POOLS_PROGRAM_ADDRESS K))))
   \<and> (poolVersion (SwapParams.pool sp) = None \<longrightarrow>
        (\<forall>tx. swap K conn sp = Inr tx \<longrightarrow>
           (\<exists>minIncome.
              Swap sp minIncome
                (findProgramAddress conn (poolPublicKey (SwapParams.pool sp))
                   (POOLS_PROGRAM_ADDRESS K))
                (SwapParams.wallet sp) (swap_userBase conn sp) (swap_userQuote conn sp) 1
              \<in> set tx)))"
proof (intro conjI impI allI)
  assume "POOLS_PROGRAM_ADDRESS K \<noteq> POOLS_V2_PROGRAM_ADDRESS K"
  then show "getPoolAddress K v = POOLS_PROGRAM_ADDRESS K \<longleftrightarrow> v = 1"
    by (auto simp: getPoolAddress_def)
next
  assume "v \<noteq> 1"
  then show "getPoolAddress K v = POOLS_V2_PROGRAM_ADDRESS K"
    by (simp add: getPoolAddress_def)
next
  fix tx
  assume "poolVersion (DepositLiquidityParams.pool dp) = None"
    and "depositLiquidity K conn dp = Inr tx"
  then show "\<exists>account size.
              last tx = DepositLiquidity dp (DepositLiquidityParams.wallet dp)
                (findProgramAddress conn (poolPublicKey (DepositLiquidityParams.pool dp))
                   (POOLS_PROGRAM_ADDRESS K))
                account size (POOLS_PROGRAM_ADDRESS K)"
    using depositLiquidity_last [of K conn dp tx]
    by (simp add: poolVersion_absent getPoolAddress_def)
next
  fix tx
  assume "poolVersion (WithdrawLiquidityParams.pool wp) = None"
    and "withdrawLiquidity K conn wp = Inr tx"
  then show "\<exists>base quote baseMin quoteMin.
              last tx = WithdrawLiquidity wp base quote baseMin quoteMin
                (findProgramAddress conn (poolPublicKey (WithdrawLiquidityParams.pool wp))
                   (POOLS_PROGRAM_ADDRESS K))
                (WithdrawLiquidityParams.wallet wp) (POOLS_PROGRAM_ADDRESS K)"
    using withdrawLiquidity_last [of K conn wp tx]
    by (simp add: poolVersion_absent getPoolAddress_def)
next
  fix tx
  assume "poolVersion (SwapParams.pool sp) = None" and "swap K conn sp = Inr tx"
  then show "\<exists>minIncome.
              Swap sp minIncome
                (findProgramAddress conn (poolPublicKey (SwapParams.pool sp))
                   (POOLS_PROGRAM_ADDRESS K))
                (SwapParams.wallet sp) (swap_userBase conn sp) (swap_userQuote conn sp) 1
              \<in> set tx"
    using swap_has_swap_instruction [of K conn sp tx]
    by (simp add: poolVersion_absent getPoolAddress_def swap_instruction_def)
qed

theorem absent_poolVersion_is_1_witness:
  "getPoolAddress example_constants 1 = ''pools-v1''
   \<and> getPoolAddress example_constants 2 = ''pools-v2''
   \<and> (\<exists>tx account size.
         depositLiquidity example_constants example_connection_large example_deposit_params
           = Inr tx
         \<and> last tx = DepositLiquidity example_deposit_params ''wallet'' ''signer'' account size
                       ''pools-v1'')
   \<and> (\<exists>tx base quote baseMin quoteMin.
         withdrawLiquidity example_constants example_connection_large example_withdraw_params
           = Inr tx
         \<and> last tx = WithdrawLiquidity example_withdraw_params base quote baseMin quoteMin
                       ''signer'' ''wallet'' ''pools-v1'')
   \<and> (\<exists>tx minIncome.
         swap example_constants example_connection example_swap_params = Inr tx
         \<and> Swap example_swap_params minIncome ''signer'' ''wallet'' ''user-base'' ''user-quote'' 1
             \<in> set tx)"
proof -
  have K: "POOLS_PROGRAM_ADDRESS example_constants = ''pools-v1''"
    "POOLS_V2_PROGRAM_ADDRESS example_constants = ''pools-v2''"
    by (simp_all add: example_constants_def)
  have p: "poolVersion (DepositLiquidityParams.pool example_deposit_params) = None"
    "poolVersion (WithdrawLiquidityParams.pool example_withdraw_params) = None"
    "poolVersion (SwapParams.pool example_swap_params) = None"
    "DepositLiquidityParams.wallet example_deposit_params = ''wallet''"
    "WithdrawLiquidityParams.wallet example_withdraw_params = ''wallet''"
    "SwapParams.wallet example_swap_params = ''wallet''"
    "swap_userBase example_connection example_swap_params = ''user-base''"
    "swap_userQuote example_connection example_swap_params = ''user-quote''"
    by (simp_all add: example_deposit_params_def example_withdraw_params_def
          example_swap_params_def example_pool_def swap_userBase_def swap_userQuote_def)
  have f: "findProgramAddress example_connection_large a b = ''signer''"
    "findProgramAddress example_connection a b = ''signer''" for a b
    by (simp_all add: example_connection_large_def example_connection_def)
  note large = absent_poolVersion_is_1 [of example_constants 1 example_deposit_params
        example_connection_large example_withdraw_params example_swap_params,
        unfolded K p f]
  note small = absent_poolVersion_is_1 [of example_constants 2 example_deposit_params
        example_connection example_withdraw_params example_swap_params,
        unfolded K p f]
  have a: "getPoolAddress example_constants 1 = ''pools-v1''"
    using large by simp
  have b: "getPoolAddress example_constants 2 = ''pools-v2''"
    using small by simp
  have c: "\<exists>tx account size.
         depositLiquidity example_constants example_connection_large example_deposit_params
           = Inr tx
         \<and> last tx = DepositLiquidity example_deposit_params ''wallet'' ''signer'' account size
                       ''pools-v1''"
    using large depositLiquidity_example by blast
  have d: "\<exists>tx base quote baseMin quoteMin.
         withdrawLiquidity example_constants example_connection_large example_withdraw_params
           = Inr tx
         \<and> last tx = WithdrawLiquidity example_withdraw_params base quote baseMin quoteMin
                       ''signer'' ''wallet'' ''pools-v1''"
    using large withdrawLiquidity_example by blast
  have e: "\<exists>tx minIncome.
         swap example_constants example_connection example_swap_params = Inr tx
         \<and> Swap example_swap_params minIncome ''signer'' ''wallet'' ''user-base'' ''user-quote'' 1
             \<in> set tx"
    using small swap_example_plain by blast
  show ?thesis using a b c d e by blast
qed


section \<open>Properties of the account queries\<close>

lemma getStakingTickets_eq:
  "getStakingTickets K L conn u =
     map (\<lambda>t. StakingTicketData.extend (decode L (data t))
                 (StakingTicket.fields (ProgramAccount.pubkey t)))
       (getProgramAccounts conn (STAKING_PROGRAM_ADDRESS K) (ticketFilters L u))"
  by (cases u) (simp_all add: getStakingTickets_def ticketFilters_def Let_def)





section \<open>Properties of the staking client\<close>

lemma findFarmingStateItem_None:
  "findFarmingStateItem items = None
     \<longleftrightarrow> (\<forall>item\<in>set items. tokensTotal item = tokensUnlocked item)"
  by (auto simp: findFarmingStateItem_def find_None_iff)

lemma find_Some_in_set: "find P xs = Some x \<Longrightarrow> x \<in> set xs"
  by (auto simp: find_Some_iff)

lemma farmingCalcs_empty:
  assumes "\<forall>ca\<in>set calcAccounts. \<not> 0 < tokenAmount ca"
  shows "farmingCalcs states calcAccounts = []"
proof -
  have "\<not> (case snd sv of None \<Rightarrow> False | Some ca \<Rightarrow> 0 < tokenAmount ca)"
    if "sv \<in> set (map (\<lambda>state.
                  (state,
                   find (\<lambda>ca. FarmingCalcData.farmingState ca = statePublicKey state)
                     (filter (\<lambda>ca. FarmingCalcData.farmingState ca \<in> set (map statePublicKey states))
                        calcAccounts)))
             states)" for sv
  proof (cases "snd sv")
    case None
    then show ?thesis by simp
  next
    case (Some ca)
    then have "ca \<in> set calcAccounts"
      using that by (auto dest!: find_Some_in_set)
    then show ?thesis using assms Some by simp
  qed
  then show ?thesis
    unfolding farmingCalcs_def Let_def filter_empty_conv by blast
qed

lemma startStaking_no_account:
  "findTokenAccount conn w sp = None \<Longrightarrow>
     startStaking K TL conn sp w a = Inl (Error ''No account - cannot stake!'')"
  by (simp add: startStaking_def Let_def)

lemma startStaking_no_farming:
  "findTokenAccount conn w sp \<noteq> None \<Longrightarrow> farming sp = None \<Longrightarrow>
     startStaking K TL conn sp w a = Inl (Error ''Dont have any farming tickets - cannot stake!'')"
  by (auto simp: startStaking_def Let_def)

lemma startStaking_no_item:
  "findTokenAccount conn w sp \<noteq> None \<Longrightarrow> farming sp = Some items \<Longrightarrow>
     \<forall>item\<in>set items. tokensTotal item = tokensUnlocked item \<Longrightarrow>
     startStaking K TL conn sp w a = Inl (Error ''Dont have farming item - cannot stake!'')"
  using findFarmingStateItem_None [of items] by (auto simp: startStaking_def Let_def)

lemma startStaking_succeeds:
  "findTokenAccount conn w sp \<noteq> None \<Longrightarrow> farming sp = Some items \<Longrightarrow>
     \<exists>item\<in>set items. tokensTotal item \<noteq> tokensUnlocked item \<Longrightarrow>
     \<exists>tx. startStaking K TL conn sp w a = Inr tx"
  using findFarmingStateItem_None [of items] by (auto simp: startStaking_def Let_def)

lemma endStaking_no_ticket:
  assumes "\<forall>t\<in>set (getStakingTickets K TL conn (Some w)).
             \<not> ticketToClose K (js_trunc (now / 1000) - 3600) t"
  shows "\<exists>e. endStaking K TL conn sp w now = Inl e"
proof -
  have "filter (ticketToClose K (js_trunc (now / 1000) - 3600))
          (getStakingTickets K TL conn (Some w)) = []"
    using assms by (simp add: filter_empty_conv)
  then show ?thesis
    by (simp add: endStaking_def Let_def split: option.split)
qed

lemma endStaking_no_ticket_message:
  assumes "farming sp = Some items"
    and "\<exists>item\<in>set items. tokensTotal item \<noteq> tokensUnlocked item"
    and "\<forall>t\<in>set (getStakingTickets K TL conn (Some w)).
           \<not> ticketToClose K (js_trunc (now / 1000) - 3600) t"
  shows "endStaking K TL conn sp w now = Inl (Error ''No tickets, nothing to check'')"
proof -
  obtain farmingStateItem where item: "findFarmingStateItem items = Some farmingStateItem"
    using assms(2) findFarmingStateItem_None [of items] by auto
  have "filter (ticketToClose K (js_trunc (now / 1000) - 3600))
          (getStakingTickets K TL conn (Some w)) = []"
    using assms(3) by (simp add: filter_empty_conv)
  then show ?thesis using assms(1) item by (simp add: endStaking_def Let_def)
qed

lemma claim_no_farming:
  "farming sp = None \<Longrightarrow>
     claim K SL CL conn sp w = Inl (Error ''Dont have any farming tickets - cannot claim!'')"
  by (simp add: claim_def Let_def)

lemma claim_no_item:
  "farming sp = Some items \<Longrightarrow> \<forall>item\<in>set items. tokensTotal item = tokensUnlocked item \<Longrightarrow>
     claim K SL CL conn sp w = Inl (Error ''Dont have farming item - cannot claim!'')"
  using findFarmingStateItem_None [of items] by (simp add: claim_def Let_def)

lemma claim_no_calc:
  assumes "farming sp = Some items"
    and "\<exists>item\<in>set items. tokensTotal item \<noteq> tokensUnlocked item"
    and "\<forall>c\<in>set (getProgramAccounts conn (STAKING_PROGRAM_ADDRESS K) [DataSize (span CL)]).
           \<not> 0 < tokenAmount (decode CL (data c))"
  shows "claim K SL CL conn sp w = Inl TypeError"
proof -
  obtain farmingStateItem where item: "findFarmingStateItem items = Some farmingStateItem"
    using assms(2) findFarmingStateItem_None [of items] by auto
  have "farmingCalcs (getStakingState K SL conn (swapToken sp))
          (map (\<lambda>calc. FarmingCalcData.extend (decode CL (data calc))
                         (FarmingCalc.fields (ProgramAccount.pubkey calc)))
             (getProgramAccounts conn (STAKING_PROGRAM_ADDRESS K) [DataSize (span CL)])) = []"
    using assms(3) by (intro farmingCalcs_empty) (auto simp: FarmingCalcData.defs)
  then show ?thesis using assms(1) item by (simp add: claim_def Let_def)
qed





end
